theory Spec2Isabelle
  imports Main
begin

section \<open>The surroundings of one invocation of \<^verbatim>\<open>repair_conda.py\<close>\<close>

text \<open>
  The script talks to three things outside itself: the filesystem (through
  \<^verbatim>\<open>Path.exists\<close> and \<^verbatim>\<open>Path.is_dir\<close>), the operating system's process
  launcher (through \<^verbatim>\<open>subprocess.run\<close>) and the logging stream. They are made
  explicit here. A \<^emph>\<open>world\<close> is the mutable part (it is threaded through every function
  of the script); an \<^emph>\<open>environment\<close> is the part the script cannot change: what the
  interpreter and the operating system do when asked.
\<close>

text \<open>What \<^verbatim>\<open>is_dir()\<close> distinguishes about an entry that exists.\<close>

datatype kind = Directory | Other

text \<open>A filesystem maps the rendering of a path (\<^verbatim>\<open>str(path)\<close>) to the entry found there.\<close>

type_synonym filesystem = "string \<rightharpoonup> kind"

text \<open>\<^verbatim>\<open>subprocess.CompletedProcess\<close> with \<^verbatim>\<open>capture_output=True, text=True\<close>.\<close>

record completed_process =
  returncode :: int
  stdout :: string
  stderr :: string

text \<open>
  The exception \<^verbatim>\<open>subprocess.run\<close> raises when the executable cannot be started
  (\<^verbatim>\<open>FileNotFoundError\<close>, \<^verbatim>\<open>PermissionError\<close>: subclasses of \<^verbatim>\<open>OSError\<close>).
\<close>

datatype pyexn = OSError string

text \<open>The three logging levels the script uses, with the numbers of the \<^verbatim>\<open>logging\<close> module.\<close>

datatype level = DEBUG | INFO | ERROR

fun levelno :: "level \<Rightarrow> nat" where
  "levelno DEBUG = 10"
| "levelno INFO = 20"
| "levelno ERROR = 40"

fun levelname :: "level \<Rightarrow> string" where
  "levelname DEBUG = ''DEBUG''"
| "levelname INFO = ''INFO''"
| "levelname ERROR = ''ERROR''"

text \<open>
  The environment. The library operations of the interpreter that the script calls and
  that are not part of the repository are parameters:
  \<^item> \<open>sys_executable\<close>: the value of \<^verbatim>\<open>sys.executable\<close>;
  \<^item> \<open>Path\<close>: \<^verbatim>\<open>str(Path(s))\<close>, a path being represented by its rendering;
  \<^item> \<open>parent\<close>: \<^verbatim>\<open>str(p.parent)\<close>;
  \<^item> \<open>repr\<close>: how an f-string renders a list of strings;
  \<^item> \<open>spawn\<close>: what \<^verbatim>\<open>subprocess.run\<close> does with a command on a filesystem: it
    raises or completes, and leaves a filesystem behind;
  \<^item> \<open>external\<close>: what other processes do to the filesystem just before the \<open>n\<close>-th
    system call of the script (the script takes no lock);
  \<^item> \<open>stat_error\<close>: the \<^verbatim>\<open>OSError\<close>, if any, with which \<^verbatim>\<open>os.stat\<close> fails on a path
    at the \<open>n\<close>-th system call, other than the ones pathlib takes for the absence of the
    path (a name that is too long, a directory that may not be searched, ...).
\<close>

record environment =
  sys_executable :: string
  Path :: "string \<Rightarrow> string"
  parent :: "string \<Rightarrow> string"
  repr :: "string list \<Rightarrow> string"
  spawn :: "string list \<Rightarrow> filesystem \<Rightarrow> (pyexn + completed_process) \<times> filesystem"
  external :: "nat \<Rightarrow> filesystem \<Rightarrow> filesystem"
  stat_error :: "nat \<Rightarrow> string \<Rightarrow> pyexn option"

text \<open>
  The world: the filesystem, the number of system calls made so far, the level of the
  module's logger (\<^verbatim>\<open>logger.setLevel\<close>), the lines the handler has written, and the
  commands handed to \<^verbatim>\<open>subprocess.run\<close>, in order.
\<close>

record world =
  fs :: filesystem
  clock :: nat
  threshold :: level
  log_lines :: "string list"
  commands :: "string list list"

text \<open>Every system call sees the filesystem as the other processes have left it.\<close>

definition tick :: "environment \<Rightarrow> world \<Rightarrow> world" where
  "tick e w = w\<lparr>fs := external e (clock w) (fs w), clock := Suc (clock w)\<rparr>"

section \<open>Logging setup (lines 45--50)\<close>

text \<open>
  The handler writes \<^verbatim>\<open>[%(levelname)s] %(message)s\<close> for every record whose level is
  at least the logger's.
\<close>

definition emit :: "level \<Rightarrow> string \<Rightarrow> world \<Rightarrow> world" where
  "emit l msg w =
     (if levelno (threshold w) \<le> levelno l
      then w\<lparr>log_lines := log_lines w @ [''['' @ levelname l @ ''] '' @ msg]\<rparr>
      else w)"

definition logger_debug :: "string \<Rightarrow> world \<Rightarrow> world" where
  "logger_debug = emit DEBUG"

definition logger_info :: "string \<Rightarrow> world \<Rightarrow> world" where
  "logger_info = emit INFO"

definition logger_error :: "string \<Rightarrow> world \<Rightarrow> world" where
  "logger_error = emit ERROR"

section \<open>Utilities (lines 57--93)\<close>

text \<open>
  \<^verbatim>\<open>run(cmd)\<close>: logs at debug level, then hands the command to the operating system.
  The result is the exception raised or the completed process.
\<close>

definition run :: "environment \<Rightarrow> string list \<Rightarrow> world \<Rightarrow> (pyexn + completed_process) \<times> world" where
  "run e cmd w =
     (let w1 = logger_debug (''Executing: '' @ repr e cmd) w;
          w2 = tick e w1;
          (r, f) = spawn e cmd (fs w2)
      in (r, w2\<lparr>fs := f, commands := commands w2 @ [cmd]\<rparr>))"

text \<open>
  \<^verbatim>\<open>path.exists()\<close> and \<^verbatim>\<open>path.is_dir()\<close>: one system call each. Both call
  \<^verbatim>\<open>os.stat\<close>; pathlib answers \<^verbatim>\<open>False\<close> when the path is not there and raises again
  every other \<^verbatim>\<open>OSError\<close>.
\<close>

definition path_exists :: "environment \<Rightarrow> string \<Rightarrow> world \<Rightarrow> (pyexn + bool) \<times> world" where
  "path_exists e p w =
     (let w1 = tick e w in
      case stat_error e (clock w) p of
        Some x \<Rightarrow> (Inl x, w1)
      | None \<Rightarrow> (Inr (fs w1 p \<noteq> None), w1))"

definition path_is_dir :: "environment \<Rightarrow> string \<Rightarrow> world \<Rightarrow> (pyexn + bool) \<times> world" where
  "path_is_dir e p w =
     (let w1 = tick e w in
      case stat_error e (clock w) p of
        Some x \<Rightarrow> (Inl x, w1)
      | None \<Rightarrow> (Inr (fs w1 p = Some Directory), w1))"

definition path_exists_description :: "environment \<Rightarrow> string \<Rightarrow> world \<Rightarrow> (pyexn + string) \<times> world" where
  "path_exists_description e p w =
     (case path_exists e p w of
        (Inl x, w1) \<Rightarrow> (Inl x, w1)
      | (Inr ex, w1) \<Rightarrow>
          if ex then
            (case path_is_dir e p w1 of
               (Inl x, w2) \<Rightarrow> (Inl x, w2)
             | (Inr d, w2) \<Rightarrow>
                 (Inr (''exists ('' @ (if d then ''junction'' else ''file/dir'') @ '')''), w2))
          else (Inr ''missing'', w1))"

text \<open>
  \<^verbatim>\<open>str.strip()\<close>: the characters below 256 for which \<^verbatim>\<open>str.isspace\<close> holds are
  removed at both ends.
\<close>

definition isspace :: "char \<Rightarrow> bool" where
  "isspace c = (of_char c \<in> {9, 10, 11, 12, 13, 28, 29, 30, 31, 32, 133, 160 :: nat})"

definition strip :: "string \<Rightarrow> string" where
  "strip s = rev (dropWhile isspace (rev (dropWhile isspace s)))"

definition where_cmd :: "string list" where
  "where_cmd = [''where'', ''cookiecutter'']"

definition get_cookiecutter_path :: "environment \<Rightarrow> world \<Rightarrow> (pyexn + string) \<times> world" where
  "get_cookiecutter_path e w =
     (case run e where_cmd w of
        (Inl x, w1) \<Rightarrow> (Inl x, w1)
      | (Inr result, w1) \<Rightarrow>
          if returncode result = 0 then (Inr (strip (stdout result)), w1)
          else (Inr ''not found'', w1))"

text \<open>The command of line 86, for a link and a target.\<close>

definition mklink_cmd :: "string \<Rightarrow> string \<Rightarrow> string list" where
  "mklink_cmd link target = [''cmd'', ''/c'', ''mklink'', ''/J'', link, target]"

definition create_junction :: "environment \<Rightarrow> string \<Rightarrow> string \<Rightarrow> world \<Rightarrow> (pyexn + bool) \<times> world" where
  "create_junction e target link w =
     (case path_exists e link w of
        (Inl x, w1) \<Rightarrow> (Inl x, w1)
      | (Inr ex, w1) \<Rightarrow>
          if ex then
            (Inr False, logger_error (''Cannot create junction: '' @ link @ '' already exists.'') w1)
          else
            (case run e (mklink_cmd link target) w1 of
               (Inl x, w2) \<Rightarrow> (Inl x, w2)
             | (Inr result, w2) \<Rightarrow>
                 if returncode result = 0
                 then (Inr True, logger_info (''Created junction: '' @ link @ '' -> '' @ target) w2)
                 else (Inr False, logger_error (''mklink failed: '' @ stderr result) w2)))"

section \<open>Main logic (lines 100--164)\<close>

text \<open>
  What the operator wrote on the command line: an option that takes a value is \<open>None\<close>
  when it was not given, a flag is \<open>True\<close> when it was.
\<close>

record command_line =
  given_broken_root :: "string option"
  given_actual_root :: "string option"
  given_apply :: bool
  given_debug :: bool

text \<open>The namespace \<^verbatim>\<open>parse_args\<close> returns.\<close>

record namespace =
  broken_root :: string
  actual_root :: "string option"
  apply_flag :: bool
  debug :: bool

definition default_broken_root :: string where
  "default_broken_root = ''C:'' @ [CHR 0x5C] @ ''miniconda3''"

text \<open>
  The four \<^verbatim>\<open>add_argument\<close> declarations (lines 102--121): each option that was not
  given takes its declared default, \<^verbatim>\<open>store_true\<close> flags default to false.
\<close>

definition parse_args :: "command_line \<Rightarrow> namespace" where
  "parse_args c =
     \<lparr>broken_root = (case given_broken_root c of None \<Rightarrow> default_broken_root | Some s \<Rightarrow> s),
      actual_root = given_actual_root c,
      apply_flag = given_apply c,
      debug = given_debug c\<rparr>"

text \<open>Lines 127 and 128. An empty string is false in Python, as \<^verbatim>\<open>None\<close> is.\<close>

definition broken_path :: "environment \<Rightarrow> namespace \<Rightarrow> string" where
  "broken_path e a = Path e (broken_root a)"

definition actual_path :: "environment \<Rightarrow> namespace \<Rightarrow> string" where
  "actual_path e a =
     (case actual_root a of
        None \<Rightarrow> parent e (Path e (sys_executable e))
      | Some r \<Rightarrow> if r \<noteq> [] then Path e r else parent e (Path e (sys_executable e)))"

text \<open>How one run of \<^verbatim>\<open>main()\<close> ends.\<close>

datatype outcome = Returned | SysExit int | Uncaught pyexn

text \<open>
  The status the interpreter gives the process: 0 when \<^verbatim>\<open>main()\<close> returns, the
  argument of \<^verbatim>\<open>sys.exit\<close>, and 1 after the traceback of an uncaught exception.
\<close>

fun exit_status :: "outcome \<Rightarrow> int" where
  "exit_status Returned = 0"
| "exit_status (SysExit n) = n"
| "exit_status (Uncaught x) = 1"

text \<open>
  \<^verbatim>\<open>main()\<close> is a straight line; it is given in three consecutive pieces so that the
  world at the start of each piece has a name. First, lines 124--133: the level, the two
  paths and the four header lines. The description of a path is computed before the line
  that contains it is logged. The result is the exception that ended these lines, if
  any, and the world they reached.
\<close>

definition main_header :: "environment \<Rightarrow> namespace \<Rightarrow> world \<Rightarrow> pyexn option \<times> world" where
  "main_header e a w0 =
     (let w1 = (if debug a then w0\<lparr>threshold := DEBUG\<rparr> else w0);
          broken = broken_path e a;
          actual = actual_path e a;
          w2 = logger_info ''=== Miniconda Cookiecutter Path Repair Tool ==='' w1;
          w3 = logger_info (''Running Python: '' @ sys_executable e) w2
      in
      case path_exists_description e broken w3 of
        (Inl x, w4) \<Rightarrow> (Some x, w4)
      | (Inr db, w4) \<Rightarrow>
          (let w5 = logger_info (''Expected broken root: '' @ broken @ '' ['' @ db @ '']'') w4 in
           case path_exists_description e actual w5 of
             (Inl x, w6) \<Rightarrow> (Some x, w6)
           | (Inr da, w6) \<Rightarrow>
               (None, logger_info (''Detected actual root: '' @ actual @ '' ['' @ da @ '']'') w6)))"

text \<open>Lines 138--160: the precondition, the no-op, the dry run and the repair.\<close>

definition main_repair :: "environment \<Rightarrow> namespace \<Rightarrow> world \<Rightarrow> outcome \<times> world" where
  "main_repair e a w =
     (let broken = broken_path e a;
          actual = actual_path e a
      in
      case path_exists e actual w of
        (Inl x, w1) \<Rightarrow> (Uncaught x, w1)
      | (Inr ea, w1) \<Rightarrow>
          if \<not> ea then
            (SysExit 1, logger_error ''Actual miniconda root does not exist. Cannot continue.'' w1)
          else
            (case path_exists e broken w1 of
               (Inl x, w2) \<Rightarrow> (Uncaught x, w2)
             | (Inr eb, w2) \<Rightarrow>
                 if eb then
                   (Returned, logger_info (broken @ '' already exists. Not modifying.'') w2)
                 else if \<not> apply_flag a then
                   (Returned,
                    logger_info (''    mklink /J '' @ broken @ '' '' @ actual)
                      (logger_info ''Use --apply to create:''
                        (logger_info ''Dry-run mode. No changes made.''
                          (logger_info [] w2))))
                 else
                   (case create_junction e actual broken (logger_info ''Creating junction...'' w2) of
                      (Inl x, w3) \<Rightarrow> (Uncaught x, w3)
                    | (Inr ok, w3) \<Rightarrow>
                        if \<not> ok then (SysExit 1, w3)
                        else (Returned,
                              logger_info ''Try running: cookiecutter''
                                (logger_info ''Repair complete.'' w3)))))"

text \<open>The whole of \<^verbatim>\<open>main()\<close>, with lines 135 and 136 between the two pieces.\<close>

definition main :: "environment \<Rightarrow> namespace \<Rightarrow> world \<Rightarrow> outcome \<times> world" where
  "main e a w =
     (case main_header e a w of
        (Some x, w0) \<Rightarrow> (Uncaught x, w0)
      | (None, w0) \<Rightarrow>
          (case get_cookiecutter_path e w0 of
             (Inl x, w1) \<Rightarrow> (Uncaught x, w1)
           | (Inr cookie, w1) \<Rightarrow>
               main_repair e a (logger_info (''cookiecutter resolved to: '' @ cookie) w1)))"

section \<open>One invocation, and what its checks see\<close>

text \<open>
  The world in which \<^verbatim>\<open>main()\<close> starts: the module's top level has set the logger to
  \<^verbatim>\<open>INFO\<close> (line 50), nothing has been written and no command has been run.
\<close>

definition startup :: "filesystem \<Rightarrow> world" where
  "startup f = \<lparr>fs = f, clock = 0, threshold = INFO, log_lines = [], commands = []\<rparr>"

text \<open>
  The world in which line 138 starts, when lines 124--136 have completed; \<open>None\<close> when
  an existence check of the header or the lookup raised, and line 138 is never reached.
\<close>

definition diagnosed :: "environment \<Rightarrow> namespace \<Rightarrow> world \<Rightarrow> world option" where
  "diagnosed e a w =
     (case main_header e a w of
        (Some x, w0) \<Rightarrow> None
      | (None, w0) \<Rightarrow>
          (case get_cookiecutter_path e w0 of
             (Inl x, w1) \<Rightarrow> None
           | (Inr cookie, w1) \<Rightarrow>
               Some (logger_info (''cookiecutter resolved to: '' @ cookie) w1)))"

text \<open>
  From the world \<open>w\<close> in which line 138 starts, the filesystem that each later system
  call is made on: the precondition check (line 138), the no-op check (line 143), the
  check of \<^verbatim>\<open>create_junction\<close> (line 82) and the link-creation command (line 87).
  Other processes may have acted before each of them.
\<close>

definition at_precondition :: "environment \<Rightarrow> world \<Rightarrow> filesystem" where
  "at_precondition e w = fs (tick e w)"

definition at_noop :: "environment \<Rightarrow> world \<Rightarrow> filesystem" where
  "at_noop e w = fs (tick e (tick e w))"

definition at_junction_check :: "environment \<Rightarrow> world \<Rightarrow> filesystem" where
  "at_junction_check e w = fs (tick e (tick e (tick e w)))"

definition at_mklink :: "environment \<Rightarrow> world \<Rightarrow> filesystem" where
  "at_mklink e w = fs (tick e (tick e (tick e (tick e w))))"

text \<open>
  From the same world, what the three existence checks return (or raise): the
  precondition check \<^verbatim>\<open>actual.exists()\<close> of line 138, the no-op check
  \<^verbatim>\<open>broken.exists()\<close> of line 143 and the check \<^verbatim>\<open>link.exists()\<close> of line 82.
\<close>

definition precondition_check :: "environment \<Rightarrow> namespace \<Rightarrow> world \<Rightarrow> pyexn + bool" where
  "precondition_check e a w = fst (path_exists e (actual_path e a) w)"

definition noop_check :: "environment \<Rightarrow> namespace \<Rightarrow> world \<Rightarrow> pyexn + bool" where
  "noop_check e a w = fst (path_exists e (broken_path e a) (tick e w))"

definition junction_check :: "environment \<Rightarrow> namespace \<Rightarrow> world \<Rightarrow> pyexn + bool" where
  "junction_check e a w = fst (path_exists e (broken_path e a) (tick e (tick e w)))"

text \<open>The words of a command as they are typed at a prompt: joined by single spaces.\<close>

fun spaced :: "string list \<Rightarrow> string" where
  "spaced [] = []"
| "spaced [w] = w"
| "spaced (w # ws) = w @ '' '' @ spaced ws"


section \<open>Sample surroundings\<close>

text \<open>
  Concrete machines on which the script is run in the examples below. They are inputs,
  not part of the script.
\<close>

definition tools_miniconda3 :: string where
  "tools_miniconda3 = ''C:'' @ [CHR 0x5C] @ ''tools'' @ [CHR 0x5C] @ ''miniconda3''"

definition sample_parent :: "string \<Rightarrow> string" where
  "sample_parent s = rev (tl (dropWhile (\<lambda>c. c \<noteq> CHR 0x5C) (rev s)))"

definition sample_repr :: "string list \<Rightarrow> string" where
  "sample_repr cmd = ''['' @ concat (map (\<lambda>s. [CHR 0x27] @ s @ [CHR 0x27] @ '', '') cmd) @ '']''"

text \<open>
  A Windows-like launcher: a six-word command is \<^verbatim>\<open>mklink\<close>, which creates the junction
  unless something is at the link; anything else is a lookup that finds nothing.
\<close>

definition windows_spawn :: "string list \<Rightarrow> filesystem \<Rightarrow> (pyexn + completed_process) \<times> filesystem" where
  "windows_spawn cmd f =
     (case cmd of
        [c1, c2, c3, c4, link, target] \<Rightarrow>
          (if f link = None
           then (Inr \<lparr>returncode = 0, stdout = ''Junction created'', stderr = []\<rparr>,
                 f(link \<mapsto> Directory))
           else (Inr \<lparr>returncode = 1, stdout = [],
                      stderr = ''Cannot create a file when that file already exists.''\<rparr>, f))
      | _ \<Rightarrow> (Inr \<lparr>returncode = 1, stdout = [], stderr = ''INFO: Could not find files''\<rparr>, f))"

text \<open>A launcher without privilege: \<^verbatim>\<open>mklink\<close> is refused and creates nothing.\<close>

definition refusing_spawn :: "string list \<Rightarrow> filesystem \<Rightarrow> (pyexn + completed_process) \<times> filesystem" where
  "refusing_spawn cmd f = (Inr \<lparr>returncode = 1, stdout = [], stderr = ''Access is denied.''\<rparr>, f)"

text \<open>A machine on which no executable can be started.\<close>

definition failing_spawn :: "string list \<Rightarrow> filesystem \<Rightarrow> (pyexn + completed_process) \<times> filesystem" where
  "failing_spawn cmd f = (Inl (OSError ''The system cannot find the file specified''), f)"

text \<open>
  A machine on which the lookup executable alone cannot be started; everything else is
  as with the Windows-like launcher.
\<close>

definition no_where_spawn :: "string list \<Rightarrow> filesystem \<Rightarrow> (pyexn + completed_process) \<times> filesystem" where
  "no_where_spawn cmd f =
     (if cmd = where_cmd
      then (Inl (OSError ''The system cannot find the file specified''), f)
      else windows_spawn cmd f)"

text \<open>Nobody else touches the filesystem.\<close>

definition quiet :: "nat \<Rightarrow> filesystem \<Rightarrow> filesystem" where
  "quiet n f = f"

text \<open>Another process creates a directory at \<open>p\<close> just before system call \<open>k\<close>.\<close>

definition racing :: "nat \<Rightarrow> string \<Rightarrow> nat \<Rightarrow> filesystem \<Rightarrow> filesystem" where
  "racing k p n f = (if n = k then f(p \<mapsto> Directory) else f)"

text \<open>A machine with a launcher and neighbours, on which \<^verbatim>\<open>os.stat\<close> never fails.\<close>

definition machine ::
  "(string list \<Rightarrow> filesystem \<Rightarrow> (pyexn + completed_process) \<times> filesystem) \<Rightarrow>
   (nat \<Rightarrow> filesystem \<Rightarrow> filesystem) \<Rightarrow> environment" where
  "machine sp ext =
     \<lparr>sys_executable = tools_miniconda3 @ [CHR 0x5C] @ ''python.exe'',
      Path = (\<lambda>s. s),
      parent = sample_parent,
      repr = sample_repr,
      spawn = sp,
      external = ext,
      stat_error = (\<lambda>n p. None)\<rparr>"

text \<open>The same machine, except that \<^verbatim>\<open>os.stat\<close> is refused at system call \<open>k\<close>.\<close>

definition refusing_stat :: "nat \<Rightarrow> environment \<Rightarrow> environment" where
  "refusing_stat k e =
     e\<lparr>stat_error := (\<lambda>n p. if n = k then Some (OSError ''Access is denied'') else None)\<rparr>"

text \<open>The installation is where Chocolatey puts it, and nothing is at the expected path.\<close>

definition installed :: filesystem where
  "installed = [tools_miniconda3 \<mapsto> Directory]"

text \<open>Something is at the expected path already, and the installation is missing.\<close>

definition stale_alias :: filesystem where
  "stale_alias = [default_broken_root \<mapsto> Directory]"

text \<open>Both are there.\<close>

definition repaired :: filesystem where
  "repaired = [tools_miniconda3 \<mapsto> Directory, default_broken_root \<mapsto> Directory]"

text \<open>A command line with no option, and one with \<^verbatim>\<open>--apply\<close>.\<close>

definition no_options :: command_line where
  "no_options = \<lparr>given_broken_root = None, given_actual_root = None,
                 given_apply = False, given_debug = False\<rparr>"

definition only_apply :: command_line where
  "only_apply = \<lparr>given_broken_root = None, given_actual_root = None,
                 given_apply = True, given_debug = False\<rparr>"

section \<open>Facts about the primitives\<close>

lemma emit_fields:
  "fs (emit l m w) = fs w"
  "clock (emit l m w) = clock w"
  "commands (emit l m w) = commands w"
  "threshold (emit l m w) = threshold w"
  by (simp_all add: emit_def)

lemma tick_fields:
  "clock (tick e w) = Suc (clock w)"
  "commands (tick e w) = commands w"
  "threshold (tick e w) = threshold w"
  "log_lines (tick e w) = log_lines w"
  by (simp_all add: tick_def)

lemma log_emit:
  "log_lines (emit l m w) =
     (if levelno (threshold w) \<le> levelno l
      then log_lines w @ [''['' @ levelname l @ ''] '' @ m] else log_lines w)"
  by (simp add: emit_def)

lemma tick_emit: "tick e (emit l m w) = emit l m (tick e w)"
  by (simp add: tick_def emit_def)

lemmas logger_defs = logger_debug_def logger_info_def logger_error_def

lemma run_result: "fst (run e cmd w) = fst (spawn e cmd (fs (tick e w)))"
  by (simp add: run_def Let_def logger_defs tick_emit emit_fields split: prod.split)

lemma run_fields:
  "fs (snd (run e cmd w)) = snd (spawn e cmd (fs (tick e w)))"
  "clock (snd (run e cmd w)) = Suc (clock w)"
  "commands (snd (run e cmd w)) = commands w @ [cmd]"
  "threshold (snd (run e cmd w)) = threshold w"
  "log_lines (snd (run e cmd w)) = log_lines (logger_debug (''Executing: '' @ repr e cmd) w)"
  by (simp_all add: run_def Let_def logger_defs tick_emit emit_fields tick_fields log_emit split: prod.split)

lemma info_line:
  "levelno (threshold w) \<le> 20 \<Longrightarrow> log_lines (logger_info m w) = log_lines w @ [''[INFO] '' @ m]"
  by (simp add: logger_defs log_emit)

lemma error_line:
  "levelno (threshold w) \<le> 20 \<Longrightarrow> log_lines (logger_error m w) = log_lines w @ [''[ERROR] '' @ m]"
  by (simp add: logger_defs log_emit)

lemma logger_fields:
  "fs (logger_info m w) = fs w" "clock (logger_info m w) = clock w"
  "commands (logger_info m w) = commands w" "threshold (logger_info m w) = threshold w"
  "fs (logger_error m w) = fs w" "clock (logger_error m w) = clock w"
  "commands (logger_error m w) = commands w" "threshold (logger_error m w) = threshold w"
  by (simp_all add: logger_defs emit_fields)

lemma tick_logger:
  "tick e (logger_info m w) = logger_info m (tick e w)"
  "tick e (logger_error m w) = logger_error m (tick e w)"
  by (simp_all add: logger_defs tick_emit)

text \<open>An existence check makes one system call whatever it answers.\<close>

lemma path_exists_world: "snd (path_exists e p w) = tick e w"
  by (simp add: path_exists_def Let_def split: option.split)

lemma path_is_dir_world: "snd (path_is_dir e p w) = tick e w"
  by (simp add: path_is_dir_def Let_def split: option.split)

lemma path_exists_logger:
  "fst (path_exists e p (logger_info m w)) = fst (path_exists e p w)"
  by (simp add: path_exists_def Let_def logger_fields tick_logger split: option.split)

lemma path_exists_cases:
  obtains (raised) x where "path_exists e p w = (Inl x, tick e w)"
        | (found) "path_exists e p w = (Inr True, tick e w)"
        | (absent) "path_exists e p w = (Inr False, tick e w)"
proof (cases "fst (path_exists e p w)")
  case (Inl x)
  with path_exists_world[of e p w] have "path_exists e p w = (Inl x, tick e w)"
    by (cases "path_exists e p w") simp
  then show ?thesis by (rule raised)
next
  case (Inr b)
  with path_exists_world[of e p w] have "path_exists e p w = (Inr b, tick e w)"
    by (cases "path_exists e p w") simp
  then show ?thesis by (cases b) (auto intro: found absent)
qed

lemma check_results:
  "path_exists e (actual_path e a) w = (precondition_check e a w, tick e w)"
  "path_exists e (broken_path e a) (tick e w) = (noop_check e a w, tick e (tick e w))"
  "path_exists e (broken_path e a) (logger_info m (tick e (tick e w))) =
     (junction_check e a w, logger_info m (tick e (tick e (tick e w))))"
  by (simp_all add: precondition_check_def noop_check_def junction_check_def prod_eq_iff
      path_exists_world path_exists_logger tick_logger)

text \<open>
  What a check answers, in terms of the filesystem it is made on; and on a machine where
  \<^verbatim>\<open>os.stat\<close> never fails, a check answers whether the path is there, and the header
  always completes.
\<close>

lemma check_views:
  "precondition_check e a w =
     (case stat_error e (clock w) (actual_path e a) of
        Some x \<Rightarrow> Inl x
      | None \<Rightarrow> Inr (at_precondition e w (actual_path e a) \<noteq> None))"
  "noop_check e a w =
     (case stat_error e (Suc (clock w)) (broken_path e a) of
        Some x \<Rightarrow> Inl x
      | None \<Rightarrow> Inr (at_noop e w (broken_path e a) \<noteq> None))"
  "junction_check e a w =
     (case stat_error e (Suc (Suc (clock w))) (broken_path e a) of
        Some x \<Rightarrow> Inl x
      | None \<Rightarrow> Inr (at_junction_check e w (broken_path e a) \<noteq> None))"
  by (simp_all add: precondition_check_def noop_check_def junction_check_def path_exists_def
      at_precondition_def at_noop_def at_junction_check_def Let_def tick_fields
      split: option.split)

lemma checks_without_stat_errors:
  assumes "\<forall>n p. stat_error e n p = None"
  shows "precondition_check e a w = Inr (at_precondition e w (actual_path e a) \<noteq> None)"
    and "noop_check e a w = Inr (at_noop e w (broken_path e a) \<noteq> None)"
    and "junction_check e a w = Inr (at_junction_check e w (broken_path e a) \<noteq> None)"
  using assms by (simp_all add: check_views)

lemma description_without_stat_errors:
  assumes "\<forall>n p. stat_error e n p = None"
  shows "\<exists>d. fst (path_exists_description e p w) = Inr d"
  using assms
  by (simp add: path_exists_description_def path_exists_def path_is_dir_def Let_def)

lemma header_without_stat_errors:
  assumes "\<forall>n p. stat_error e n p = None"
  shows "fst (main_header e a w) = None"
proof -
  let ?w1 = "if debug a then w\<lparr>threshold := DEBUG\<rparr> else w"
  let ?w3 = "logger_info (''Running Python: '' @ sys_executable e)
               (logger_info ''=== Miniconda Cookiecutter Path Repair Tool ==='' ?w1)"
  from description_without_stat_errors[OF assms, of "broken_path e a" ?w3]
  obtain db w4 where b: "path_exists_description e (broken_path e a) ?w3 = (Inr db, w4)"
    by (cases "path_exists_description e (broken_path e a) ?w3") auto
  let ?w5 = "logger_info (''Expected broken root: '' @ broken_path e a @ '' ['' @ db @ '']'') w4"
  from description_without_stat_errors[OF assms, of "actual_path e a" ?w5]
  obtain da w6 where c: "path_exists_description e (actual_path e a) ?w5 = (Inr da, w6)"
    by (cases "path_exists_description e (actual_path e a) ?w5") auto
  from b c show ?thesis
    by (simp add: main_header_def Let_def)
qed

section \<open>The decision tree of lines 138--160\<close>

text \<open>
  Which branch \<open>main_repair\<close> takes is determined by what its checks return. The lemmas
  give the whole result of each branch.
\<close>

lemma main_repair_precondition_raises:
  assumes "precondition_check e a w = Inl x"
  shows "main_repair e a w = (Uncaught x, tick e w)"
  using assms by (simp add: main_repair_def Let_def check_results)

lemma main_repair_missing:
  assumes "precondition_check e a w = Inr False"
  shows "main_repair e a w =
           (SysExit 1, logger_error ''Actual miniconda root does not exist. Cannot continue.'' (tick e w))"
  using assms by (simp add: main_repair_def Let_def check_results)

lemma main_repair_noop_raises:
  assumes "precondition_check e a w = Inr True"
      and "noop_check e a w = Inl x"
  shows "main_repair e a w = (Uncaught x, tick e (tick e w))"
  using assms by (simp add: main_repair_def Let_def check_results)

lemma main_repair_noop:
  assumes "precondition_check e a w = Inr True"
      and "noop_check e a w = Inr True"
  shows "main_repair e a w =
           (Returned, logger_info (broken_path e a @ '' already exists. Not modifying.'') (tick e (tick e w)))"
  using assms by (simp add: main_repair_def Let_def check_results)

lemma main_repair_dry_run:
  assumes "precondition_check e a w = Inr True"
      and "noop_check e a w = Inr False"
      and "\<not> apply_flag a"
  shows "main_repair e a w =
           (Returned,
            logger_info (''    mklink /J '' @ broken_path e a @ '' '' @ actual_path e a)
              (logger_info ''Use --apply to create:''
                (logger_info ''Dry-run mode. No changes made.''
                  (logger_info [] (tick e (tick e w))))))"
  using assms by (simp add: main_repair_def Let_def check_results)

lemma main_repair_junction_raises:
  assumes "precondition_check e a w = Inr True"
      and "noop_check e a w = Inr False"
      and "apply_flag a"
      and "junction_check e a w = Inl x"
  shows "main_repair e a w =
           (Uncaught x, logger_info ''Creating junction...'' (tick e (tick e (tick e w))))"
  using assms by (simp add: main_repair_def create_junction_def Let_def check_results)

lemma main_repair_blocked:
  assumes "precondition_check e a w = Inr True"
      and "noop_check e a w = Inr False"
      and "apply_flag a"
      and "junction_check e a w = Inr True"
  shows "main_repair e a w =
           (SysExit 1,
            logger_error (''Cannot create junction: '' @ broken_path e a @ '' already exists.'')
              (logger_info ''Creating junction...'' (tick e (tick e (tick e w)))))"
  using assms by (simp add: main_repair_def create_junction_def Let_def check_results)

lemma main_repair_apply:
  assumes "precondition_check e a w = Inr True"
      and "noop_check e a w = Inr False"
      and "apply_flag a"
      and "junction_check e a w = Inr False"
  shows "main_repair e a w =
           (case run e (mklink_cmd (broken_path e a) (actual_path e a))
                   (logger_info ''Creating junction...'' (tick e (tick e (tick e w)))) of
              (Inl x, w') \<Rightarrow> (Uncaught x, w')
            | (Inr r, w') \<Rightarrow>
                if returncode r = 0
                then (Returned,
                      logger_info ''Try running: cookiecutter''
                        (logger_info ''Repair complete.''
                          (logger_info (''Created junction: '' @ broken_path e a @ '' -> '' @ actual_path e a) w')))
                else (SysExit 1, logger_error (''mklink failed: '' @ stderr r) w'))"
  using assms
  by (simp add: main_repair_def create_junction_def Let_def check_results split: prod.split sum.split)

lemma check_cases:
  fixes c :: "pyexn + bool"
  obtains (raised) x where "c = Inl x" | (found) "c = Inr True" | (absent) "c = Inr False"
  by (cases c) auto

lemma main_repair_outcome:
  "fst (main_repair e a w) =
     (case precondition_check e a w of
        Inl x \<Rightarrow> Uncaught x
      | Inr ea \<Rightarrow>
          if \<not> ea then SysExit 1
          else (case noop_check e a w of
                  Inl x \<Rightarrow> Uncaught x
                | Inr eb \<Rightarrow>
                    if eb then Returned
                    else if \<not> apply_flag a then Returned
                    else (case junction_check e a w of
                            Inl x \<Rightarrow> Uncaught x
                          | Inr ex \<Rightarrow>
                              if ex then SysExit 1
                              else (case fst (spawn e (mklink_cmd (broken_path e a) (actual_path e a))
                                                (at_mklink e w)) of
                                      Inl x \<Rightarrow> Uncaught x
                                    | Inr r \<Rightarrow> if returncode r = 0 then Returned else SysExit 1))))"
proof (cases "precondition_check e a w" rule: check_cases)
  case (raised x)
  then show ?thesis by (simp add: main_repair_precondition_raises)
next
  case absent
  then show ?thesis by (simp add: main_repair_missing)
next
  case found
  show ?thesis
  proof (cases "noop_check e a w" rule: check_cases)
    case (raised x)
    with found show ?thesis by (simp add: main_repair_noop_raises)
  next
    case found': found
    with found show ?thesis by (simp add: main_repair_noop)
  next
    case absent
    show ?thesis
    proof (cases "apply_flag a")
      case False
      with found absent show ?thesis by (simp add: main_repair_dry_run)
    next
      case True
      show ?thesis
      proof (cases "junction_check e a w" rule: check_cases)
        case (raised x)
        with found absent True show ?thesis by (simp add: main_repair_junction_raises)
      next
        case found'': found
        with found absent True show ?thesis by (simp add: main_repair_blocked)
      next
        case clear: absent
        let ?w3 = "logger_info ''Creating junction...'' (tick e (tick e (tick e w)))"
        let ?mk = "mklink_cmd (broken_path e a) (actual_path e a)"
        obtain r w' where r: "run e ?mk ?w3 = (r, w')"
          by (cases "run e ?mk ?w3")
        from run_result[of e ?mk ?w3] r
        have "fst (spawn e ?mk (at_mklink e w)) = r"
          by (simp add: logger_fields tick_logger at_mklink_def)
        with found absent True clear r show ?thesis
          by (simp add: main_repair_apply split: sum.split)
      qed
    qed
  qed
qed

lemma main_repair_commands:
  "commands (snd (main_repair e a w)) =
     (if precondition_check e a w = Inr True \<and> noop_check e a w = Inr False \<and>
         apply_flag a \<and> junction_check e a w = Inr False
      then commands w @ [mklink_cmd (broken_path e a) (actual_path e a)]
      else commands w)"
proof (cases "precondition_check e a w" rule: check_cases)
  case (raised x)
  then show ?thesis by (simp add: main_repair_precondition_raises tick_fields)
next
  case absent
  then show ?thesis by (simp add: main_repair_missing logger_fields tick_fields)
next
  case found
  show ?thesis
  proof (cases "noop_check e a w" rule: check_cases)
    case (raised x)
    with found show ?thesis by (simp add: main_repair_noop_raises tick_fields)
  next
    case found': found
    with found show ?thesis by (simp add: main_repair_noop logger_fields tick_fields)
  next
    case absent
    show ?thesis
    proof (cases "apply_flag a")
      case False
      with found absent show ?thesis by (simp add: main_repair_dry_run logger_fields tick_fields)
    next
      case True
      show ?thesis
      proof (cases "junction_check e a w" rule: check_cases)
        case (raised x)
        with found absent True show ?thesis
          by (simp add: main_repair_junction_raises logger_fields tick_fields)
      next
        case found'': found
        with found absent True show ?thesis
          by (simp add: main_repair_blocked logger_fields tick_fields)
      next
        case clear: absent
        let ?w3 = "logger_info ''Creating junction...'' (tick e (tick e (tick e w)))"
        let ?mk = "mklink_cmd (broken_path e a) (actual_path e a)"
        obtain r w' where r: "run e ?mk ?w3 = (r, w')"
          by (cases "run e ?mk ?w3")
        from run_fields(3)[of e ?mk ?w3] r
        have "commands w' = commands w @ [?mk]"
          by (simp add: logger_fields tick_fields)
        with found absent True clear r show ?thesis
          by (simp add: main_repair_apply logger_fields split: sum.split)
      qed
    qed
  qed
qed

lemma main_repair_fs:
  "fs (snd (main_repair e a w)) =
     (if precondition_check e a w \<noteq> Inr True then at_precondition e w
      else if noop_check e a w \<noteq> Inr False \<or> \<not> apply_flag a then at_noop e w
      else if junction_check e a w \<noteq> Inr False then at_junction_check e w
      else snd (spawn e (mklink_cmd (broken_path e a) (actual_path e a)) (at_mklink e w)))"
proof (cases "precondition_check e a w" rule: check_cases)
  case (raised x)
  then show ?thesis by (simp add: main_repair_precondition_raises at_precondition_def)
next
  case absent
  then show ?thesis by (simp add: main_repair_missing logger_fields at_precondition_def)
next
  case found
  show ?thesis
  proof (cases "noop_check e a w" rule: check_cases)
    case (raised x)
    with found show ?thesis by (simp add: main_repair_noop_raises at_noop_def)
  next
    case found': found
    with found show ?thesis by (simp add: main_repair_noop logger_fields at_noop_def)
  next
    case absent
    show ?thesis
    proof (cases "apply_flag a")
      case False
      with found absent show ?thesis by (simp add: main_repair_dry_run logger_fields at_noop_def)
    next
      case True
      show ?thesis
      proof (cases "junction_check e a w" rule: check_cases)
        case (raised x)
        with found absent True show ?thesis
          by (simp add: main_repair_junction_raises logger_fields at_junction_check_def)
      next
        case found'': found
        with found absent True show ?thesis
          by (simp add: main_repair_blocked logger_fields at_junction_check_def)
      next
        case clear: absent
        let ?w3 = "logger_info ''Creating junction...'' (tick e (tick e (tick e w)))"
        let ?mk = "mklink_cmd (broken_path e a) (actual_path e a)"
        obtain r w' where r: "run e ?mk ?w3 = (r, w')"
          by (cases "run e ?mk ?w3")
        from run_fields(1)[of e ?mk ?w3] r
        have "fs w' = snd (spawn e ?mk (at_mklink e w))"
          by (simp add: logger_fields tick_logger at_mklink_def)
        with found absent True clear r show ?thesis
          by (simp add: main_repair_apply logger_fields split: sum.split)
      qed
    qed
  qed
qed

section \<open>Lines 124--136\<close>

lemma description_fields:
  "commands (snd (path_exists_description e p w)) = commands w"
  "threshold (snd (path_exists_description e p w)) = threshold w"
  by (auto simp: path_exists_description_def path_exists_def path_is_dir_def Let_def tick_fields
      split: prod.split sum.split option.split)

lemma header_fields:
  "commands (snd (main_header e a w)) = commands w"
  "threshold (snd (main_header e a w)) = (if debug a then DEBUG else threshold w)"
proof -
  let ?w1 = "if debug a then w\<lparr>threshold := DEBUG\<rparr> else w"
  let ?w3 = "logger_info (''Running Python: '' @ sys_executable e)
               (logger_info ''=== Miniconda Cookiecutter Path Repair Tool ==='' ?w1)"
  obtain rb w4 where b: "path_exists_description e (broken_path e a) ?w3 = (rb, w4)"
    by (cases "path_exists_description e (broken_path e a) ?w3")
  from description_fields[of e "broken_path e a" ?w3] b
  have w4: "commands w4 = commands w" "threshold w4 = (if debug a then DEBUG else threshold w)"
    by (simp_all add: logger_fields)
  show "commands (snd (main_header e a w)) = commands w"
    and "threshold (snd (main_header e a w)) = (if debug a then DEBUG else threshold w)"
  proof (atomize (full), cases rb)
    case (Inl x)
    with b w4 show "commands (snd (main_header e a w)) = commands w \<and>
      threshold (snd (main_header e a w)) = (if debug a then DEBUG else threshold w)"
      by (simp add: main_header_def Let_def)
  next
    case (Inr db)
    let ?w5 = "logger_info (''Expected broken root: '' @ broken_path e a @ '' ['' @ db @ '']'') w4"
    obtain ra w6 where c: "path_exists_description e (actual_path e a) ?w5 = (ra, w6)"
      by (cases "path_exists_description e (actual_path e a) ?w5")
    from description_fields[of e "actual_path e a" ?w5] c w4
    have "commands w6 = commands w" "threshold w6 = (if debug a then DEBUG else threshold w)"
      by (simp_all add: logger_fields)
    with Inr b c show "commands (snd (main_header e a w)) = commands w \<and>
      threshold (snd (main_header e a w)) = (if debug a then DEBUG else threshold w)"
      by (cases ra) (simp_all add: main_header_def Let_def logger_fields)
  qed
qed

lemma lookup_result:
  "fst (get_cookiecutter_path e w) =
     (case fst (spawn e where_cmd (fs (tick e w))) of
        Inl x \<Rightarrow> Inl x
      | Inr r \<Rightarrow> if returncode r = 0 then Inr (strip (stdout r)) else Inr ''not found'')"
  "snd (get_cookiecutter_path e w) = snd (run e where_cmd w)"
  using run_result[of e where_cmd w]
  by (auto simp: get_cookiecutter_path_def split: prod.split sum.split)

text \<open>The three ways in which lines 124--136 can end.\<close>

lemma main_header_raised:
  assumes "fst (main_header e a w) = Some x"
  shows "main e a w = (Uncaught x, snd (main_header e a w))"
    and "diagnosed e a w = None"
  using assms by (auto simp: main_def diagnosed_def split: prod.splits option.splits)

lemma main_unreached:
  assumes "fst (main_header e a w) = None"
      and "fst (spawn e where_cmd (fs (tick e (snd (main_header e a w))))) = Inl x"
  shows "main e a w = (Uncaught x, snd (run e where_cmd (snd (main_header e a w))))"
    and "diagnosed e a w = None"
  using assms lookup_result[of e "snd (main_header e a w)"]
  by (auto simp: main_def diagnosed_def split: prod.splits sum.splits option.splits)

lemma main_completed_lookup:
  assumes "fst (main_header e a w) = None"
      and "fst (spawn e where_cmd (fs (tick e (snd (main_header e a w))))) = Inr cp"
  shows "main e a w =
           main_repair e a
             (logger_info (''cookiecutter resolved to: '' @
                 (if returncode cp = 0 then strip (stdout cp) else ''not found''))
                (snd (run e where_cmd (snd (main_header e a w)))))"
    and "diagnosed e a w =
           Some (logger_info (''cookiecutter resolved to: '' @
                   (if returncode cp = 0 then strip (stdout cp) else ''not found''))
                  (snd (run e where_cmd (snd (main_header e a w)))))"
  using assms lookup_result[of e "snd (main_header e a w)"]
  by (auto simp: main_def diagnosed_def split: prod.splits sum.splits option.splits if_splits)

lemma diagnosed_None:
  assumes "diagnosed e a w = None"
  shows "(\<exists>x. fst (main_header e a w) = Some x) \<or>
         (fst (main_header e a w) = None \<and>
          (\<exists>x. fst (spawn e where_cmd (fs (tick e (snd (main_header e a w))))) = Inl x))"
proof (cases "fst (main_header e a w)")
  case (Some x)
  then show ?thesis by simp
next
  case None
  show ?thesis
  proof (cases "fst (spawn e where_cmd (fs (tick e (snd (main_header e a w)))))")
    case (Inl x)
    with None show ?thesis by simp
  next
    case (Inr cp)
    from main_completed_lookup(2)[OF None Inr] assms show ?thesis by simp
  qed
qed

lemma diagnosed_Some:
  assumes "diagnosed e a w = Some w1"
  shows "fst (main_header e a w) = None"
    and "\<exists>cp. fst (spawn e where_cmd (fs (tick e (snd (main_header e a w))))) = Inr cp"
proof -
  show h: "fst (main_header e a w) = None"
    using assms main_header_raised(2)[of e a w] by (cases "fst (main_header e a w)") auto
  show "\<exists>cp. fst (spawn e where_cmd (fs (tick e (snd (main_header e a w))))) = Inr cp"
    using assms main_unreached(2)[OF h]
    by (cases "fst (spawn e where_cmd (fs (tick e (snd (main_header e a w)))))") auto
qed

lemma diagnosed_fields:
  assumes "diagnosed e a w = Some w1"
  shows "commands w1 = commands w @ [where_cmd]"
    and "threshold w1 = (if debug a then DEBUG else threshold w)"
proof -
  from diagnosed_Some[OF assms] obtain cp
    where h: "fst (main_header e a w) = None"
      and s: "fst (spawn e where_cmd (fs (tick e (snd (main_header e a w))))) = Inr cp"
    by blast
  from main_completed_lookup(2)[OF h s] assms
  show "commands w1 = commands w @ [where_cmd]"
    and "threshold w1 = (if debug a then DEBUG else threshold w)"
    by (auto simp: logger_fields run_fields header_fields)
qed

lemma main_reached:
  assumes "diagnosed e a w = Some w1"
  shows "main e a w = main_repair e a w1"
proof -
  from diagnosed_Some[OF assms] obtain cp
    where h: "fst (main_header e a w) = None"
      and s: "fst (spawn e where_cmd (fs (tick e (snd (main_header e a w))))) = Inr cp"
    by blast
  from main_completed_lookup[OF h s] assms show ?thesis by simp
qed

lemma startup_level:
  assumes "diagnosed e a (startup f) = Some w1"
  shows "levelno (threshold w1) \<le> 20" and "commands w1 = [where_cmd]"
  using diagnosed_fields[OF assms] by (simp_all add: startup_def)

lemma startup_threshold:
  assumes "diagnosed e a (startup f) = Some w1"
  shows "threshold w1 = (if debug a then DEBUG else INFO)"
  using diagnosed_fields(2)[OF assms] by (simp add: startup_def)

text \<open>The commands run when line 138 is not reached.\<close>

lemma unreached_commands:
  assumes "diagnosed e a (startup f) = None"
  shows "exit_status (fst (main e a (startup f))) = 1"
    and "commands (snd (main e a (startup f))) =
           (if fst (main_header e a (startup f)) = None then [where_cmd] else [])"
proof -
  from diagnosed_None[OF assms]
  show "exit_status (fst (main e a (startup f))) = 1"
    and "commands (snd (main e a (startup f))) =
           (if fst (main_header e a (startup f)) = None then [where_cmd] else [])"
  proof (atomize (full), elim disjE exE conjE)
    fix x assume "fst (main_header e a (startup f)) = Some x"
    from main_header_raised(1)[OF this] this
    show "exit_status (fst (main e a (startup f))) = 1 \<and>
          commands (snd (main e a (startup f))) =
            (if fst (main_header e a (startup f)) = None then [where_cmd] else [])"
      by (simp add: header_fields startup_def)
  next
    fix x assume h: "fst (main_header e a (startup f)) = None"
      and "fst (spawn e where_cmd (fs (tick e (snd (main_header e a (startup f)))))) = Inl x"
    from main_unreached(1)[OF this] h
    show "exit_status (fst (main e a (startup f))) = 1 \<and>
          commands (snd (main e a (startup f))) =
            (if fst (main_header e a (startup f)) = None then [where_cmd] else [])"
      by (simp add: run_fields header_fields startup_def)
  qed
qed

lemma debug_line:
  "log_lines (logger_debug m w) =
     (if threshold w = DEBUG then log_lines w @ [''[DEBUG] '' @ m] else log_lines w)"
  by (cases "threshold w") (simp_all add: logger_defs log_emit)



text \<open>The run of the link-creation command, from the world in which line 138 starts.\<close>

lemma main_repair_apply_run:
  assumes "precondition_check e a w = Inr True"
      and "noop_check e a w = Inr False"
      and "apply_flag a"
      and "junction_check e a w = Inr False"
      and "fst (spawn e (mklink_cmd (broken_path e a) (actual_path e a)) (at_mklink e w)) = Inr r"
  shows "main_repair e a w =
           (let w' = snd (run e (mklink_cmd (broken_path e a) (actual_path e a))
                       (logger_info ''Creating junction...'' (tick e (tick e (tick e w)))))
            in if returncode r = 0
               then (Returned,
                     logger_info ''Try running: cookiecutter''
                       (logger_info ''Repair complete.''
                         (logger_info (''Created junction: '' @ broken_path e a @ '' -> '' @ actual_path e a) w')))
               else (SysExit 1, logger_error (''mklink failed: '' @ stderr r) w'))"
proof -
  let ?w3 = "logger_info ''Creating junction...'' (tick e (tick e (tick e w)))"
  let ?mk = "mklink_cmd (broken_path e a) (actual_path e a)"
  have "fst (run e ?mk ?w3) = Inr r"
    using assms(5) by (simp add: run_result tick_logger logger_fields at_mklink_def)
  then obtain w' where "run e ?mk ?w3 = (Inr r, w')"
    by (cases "run e ?mk ?w3") simp
  then show ?thesis
    by (simp add: main_repair_apply[OF assms(1-4)])
qed

section \<open>Environments that differ in the result of the lookup\<close>












section \<open>Evaluation on the sample surroundings\<close>

lemmas evaluation =
  main_def main_header_def main_repair_def create_junction_def get_cookiecutter_path_def
  path_exists_description_def path_exists_def path_is_dir_def run_def tick_def
  logger_debug_def logger_info_def logger_error_def emit_def
  broken_path_def actual_path_def parse_args_def startup_def diagnosed_def
  at_precondition_def at_noop_def at_junction_check_def at_mklink_def
  precondition_check_def noop_check_def junction_check_def
  where_cmd_def mklink_cmd_def default_broken_root_def
  machine_def refusing_stat_def windows_spawn_def refusing_spawn_def failing_spawn_def
  no_where_spawn_def quiet_def racing_def
  sample_parent_def sample_repr_def tools_miniconda3_def
  installed_def stale_alias_def repaired_def no_options_def only_apply_def Let_def

section \<open>An expected path that already exists\<close>

text \<open>
  Claim C1, as amended. When the no-op check (line 143) would find something at the
  expected path, the only command handed to the operating system during the invocation
  is the lookup: the link-creation command is never issued, whether or not \<^verbatim>\<open>--apply\<close>
  was given and whether or not the actual path exists. The exit status is 0 when the
  precondition check (line 138) finds the actual path, and 1 when it does not (it
  answers \<^verbatim>\<open>False\<close> or raises), because that check comes first. In both cases the
  filesystem at the end is the one the last check was made on.
\<close>

theorem existing_expected_path_is_left_alone:
  assumes "diagnosed e a (startup f) = Some w1"
      and "noop_check e a w1 = Inr True"
  shows "commands (snd (main e a (startup f))) = [where_cmd] \<and>
         (precondition_check e a w1 = Inr True \<longrightarrow>
            exit_status (fst (main e a (startup f))) = 0 \<and>
            fs (snd (main e a (startup f))) = at_noop e w1) \<and>
         (precondition_check e a w1 \<noteq> Inr True \<longrightarrow>
            exit_status (fst (main e a (startup f))) = 1 \<and>
            fs (snd (main e a (startup f))) = at_precondition e w1)"
  using assms(2) startup_level(2)[OF assms(1)]
  by (cases "precondition_check e a w1" rule: check_cases)
     (simp_all add: main_reached[OF assms(1)] main_repair_commands main_repair_outcome main_repair_fs)

theorem existing_expected_path_is_left_alone_witness:
  "diagnosed (machine windows_spawn quiet) (parse_args only_apply) (startup repaired) \<noteq> None \<and>
   noop_check (machine windows_spawn quiet) (parse_args only_apply)
     (the (diagnosed (machine windows_spawn quiet) (parse_args only_apply) (startup repaired))) = Inr True \<and>
   precondition_check (machine windows_spawn quiet) (parse_args only_apply)
     (the (diagnosed (machine windows_spawn quiet) (parse_args only_apply) (startup repaired))) = Inr True \<and>
   commands (snd (main (machine windows_spawn quiet) (parse_args only_apply) (startup repaired))) = [where_cmd] \<and>
   exit_status (fst (main (machine windows_spawn quiet) (parse_args only_apply) (startup repaired))) = 0 \<and>
   diagnosed (machine windows_spawn quiet) (parse_args only_apply) (startup stale_alias) \<noteq> None \<and>
   noop_check (machine windows_spawn quiet) (parse_args only_apply)
     (the (diagnosed (machine windows_spawn quiet) (parse_args only_apply) (startup stale_alias))) = Inr True \<and>
   precondition_check (machine windows_spawn quiet) (parse_args only_apply)
     (the (diagnosed (machine windows_spawn quiet) (parse_args only_apply) (startup stale_alias))) = Inr False \<and>
   commands (snd (main (machine windows_spawn quiet) (parse_args only_apply) (startup stale_alias))) = [where_cmd] \<and>
   exit_status (fst (main (machine windows_spawn quiet) (parse_args only_apply) (startup stale_alias))) = 1"
proof -
  let ?e = "machine windows_spawn quiet" and ?a = "parse_args only_apply"
  have r: "diagnosed ?e ?a (startup repaired) \<noteq> None"
    by (simp add: evaluation)
  then have d: "diagnosed ?e ?a (startup repaired) = Some (the (diagnosed ?e ?a (startup repaired)))"
    by simp
  have n: "noop_check ?e ?a (the (diagnosed ?e ?a (startup repaired))) = Inr True"
    by (simp add: evaluation)
  have p: "precondition_check ?e ?a (the (diagnosed ?e ?a (startup repaired))) = Inr True"
    by (simp add: evaluation)
  have r': "diagnosed ?e ?a (startup stale_alias) \<noteq> None"
    by (simp add: evaluation)
  then have d': "diagnosed ?e ?a (startup stale_alias) = Some (the (diagnosed ?e ?a (startup stale_alias)))"
    by simp
  have n': "noop_check ?e ?a (the (diagnosed ?e ?a (startup stale_alias))) = Inr True"
    by (simp add: evaluation)
  have p': "precondition_check ?e ?a (the (diagnosed ?e ?a (startup stale_alias))) = Inr False"
    by (simp add: evaluation)
  from existing_expected_path_is_left_alone[OF d n] existing_expected_path_is_left_alone[OF d' n']
    r n p r' n' p'
  show ?thesis by simp
qed

text \<open>
  Claim C1 as it was stated promises status 0 whether or not the actual path exists.
  On a machine where only the expected path exists, the status is not 0.
\<close>

theorem existing_expected_path_counterexample:
  "fs (startup stale_alias) (broken_path (machine windows_spawn quiet) (parse_args only_apply)) \<noteq> None \<and>
   exit_status (fst (main (machine windows_spawn quiet) (parse_args only_apply) (startup stale_alias))) \<noteq> 0"
  by (simp add: evaluation)

section \<open>A missing actual path\<close>

text \<open>
  Claim C2. In every invocation in which the precondition check (line 138) does not
  find the actual path, the process exits with status 1 and the link-creation command is
  never issued: the only command handed to the operating system is the lookup, and not
  even that when an existence check of the header raised before it. This includes the
  invocations in which line 138 raises, and those that never reach it. When line 138 is
  reached, the filesystem at the end is the one that check was made on, and when it
  answers \<^verbatim>\<open>False\<close> the exit is the \<^verbatim>\<open>sys.exit(1)\<close> of line 140.
\<close>

theorem missing_actual_path_is_fatal:
  assumes "\<forall>w1. diagnosed e a (startup f) = Some w1 \<longrightarrow> precondition_check e a w1 \<noteq> Inr True"
  shows "exit_status (fst (main e a (startup f))) = 1 \<and>
         commands (snd (main e a (startup f))) =
           (if fst (main_header e a (startup f)) = None then [where_cmd] else []) \<and>
         mklink_cmd (broken_path e a) (actual_path e a) \<notin> set (commands (snd (main e a (startup f)))) \<and>
         (\<forall>w1. diagnosed e a (startup f) = Some w1 \<longrightarrow>
               fs (snd (main e a (startup f))) = at_precondition e w1 \<and>
               (precondition_check e a w1 = Inr False \<longrightarrow> fst (main e a (startup f)) = SysExit 1))"
proof (cases "diagnosed e a (startup f)")
  case None
  from unreached_commands[OF None] None show ?thesis
    by (simp add: where_cmd_def mklink_cmd_def)
next
  case (Some w1)
  with assms have p: "precondition_check e a w1 \<noteq> Inr True" by simp
  from diagnosed_Some(1)[OF Some] have h: "fst (main_header e a (startup f)) = None" .
  from p Some h startup_level(2)[OF Some] show ?thesis
    by (cases "precondition_check e a w1" rule: check_cases)
       (simp_all add: main_reached[OF Some] main_repair_commands main_repair_outcome main_repair_fs
          where_cmd_def mklink_cmd_def)
qed

theorem missing_actual_path_is_fatal_witness:
  "diagnosed (machine windows_spawn quiet) (parse_args only_apply) (startup Map.empty) \<noteq> None \<and>
   precondition_check (machine windows_spawn quiet) (parse_args only_apply)
     (the (diagnosed (machine windows_spawn quiet) (parse_args only_apply) (startup Map.empty))) = Inr False \<and>
   fst (main (machine windows_spawn quiet) (parse_args only_apply) (startup Map.empty)) = SysExit 1 \<and>
   exit_status (fst (main (machine windows_spawn quiet) (parse_args only_apply) (startup Map.empty))) = 1 \<and>
   commands (snd (main (machine windows_spawn quiet) (parse_args only_apply) (startup Map.empty))) = [where_cmd] \<and>
   diagnosed (machine failing_spawn quiet) (parse_args only_apply) (startup Map.empty) = None \<and>
   exit_status (fst (main (machine failing_spawn quiet) (parse_args only_apply) (startup Map.empty))) = 1 \<and>
   commands (snd (main (machine failing_spawn quiet) (parse_args only_apply) (startup Map.empty))) = [where_cmd] \<and>
   diagnosed (refusing_stat 0 (machine windows_spawn quiet)) (parse_args only_apply) (startup Map.empty) = None \<and>
   exit_status (fst (main (refusing_stat 0 (machine windows_spawn quiet)) (parse_args only_apply) (startup Map.empty))) = 1 \<and>
   commands (snd (main (refusing_stat 0 (machine windows_spawn quiet)) (parse_args only_apply) (startup Map.empty))) = []"
proof -
  let ?e = "machine windows_spawn quiet" and ?a = "parse_args only_apply"
  let ?e1 = "machine failing_spawn quiet" and ?e2 = "refusing_stat 0 (machine windows_spawn quiet)"
  have r: "diagnosed ?e ?a (startup Map.empty) \<noteq> None"
    by (simp add: evaluation)
  have p: "precondition_check ?e ?a (the (diagnosed ?e ?a (startup Map.empty))) = Inr False"
    by (simp add: evaluation)
  have h: "\<forall>w1. diagnosed ?e ?a (startup Map.empty) = Some w1 \<longrightarrow> precondition_check ?e ?a w1 \<noteq> Inr True"
    using r p by auto
  have e: "fst (main_header ?e ?a (startup Map.empty)) = None"
    by (simp add: evaluation)
  have u1: "diagnosed ?e1 ?a (startup Map.empty) = None"
    by (simp add: evaluation)
  then have h1: "\<forall>w1. diagnosed ?e1 ?a (startup Map.empty) = Some w1 \<longrightarrow> precondition_check ?e1 ?a w1 \<noteq> Inr True"
    by simp
  have e1: "fst (main_header ?e1 ?a (startup Map.empty)) = None"
    by (simp add: evaluation)
  have u2: "diagnosed ?e2 ?a (startup Map.empty) = None"
    by (simp add: evaluation)
  then have h2: "\<forall>w1. diagnosed ?e2 ?a (startup Map.empty) = Some w1 \<longrightarrow> precondition_check ?e2 ?a w1 \<noteq> Inr True"
    by simp
  have e2: "fst (main_header ?e2 ?a (startup Map.empty)) \<noteq> None"
    by (simp add: evaluation)
  from missing_actual_path_is_fatal[OF h] missing_actual_path_is_fatal[OF h1]
    missing_actual_path_is_fatal[OF h2] r p e u1 e1 u2 e2
  show ?thesis by auto
qed

section \<open>Dry run\<close>

text \<open>
  Claim C3, as amended. Without \<^verbatim>\<open>--apply\<close>, when lines 124--136 complete (no
  existence check raises and the lookup can be started), the precondition check answers
  \<^verbatim>\<open>True\<close> and the no-op check answers \<^verbatim>\<open>False\<close>, \<^verbatim>\<open>main()\<close> returns (status 0)
  after writing the four lines of the dry run, the last of which is the link-creation
  command as it would be typed: the words of the command of line 86 after
  \<^verbatim>\<open>cmd /c\<close>. The only command handed to the operating system is the lookup, and the
  filesystem at the end is the one the no-op check was made on.
\<close>

theorem dry_run_prints_command:
  assumes "diagnosed e a (startup f) = Some w1"
      and "\<not> apply_flag a"
      and "precondition_check e a w1 = Inr True"
      and "noop_check e a w1 = Inr False"
  shows "fst (main e a (startup f)) = Returned \<and>
         exit_status (fst (main e a (startup f))) = 0 \<and>
         log_lines (snd (main e a (startup f))) =
           log_lines w1 @
           [''[INFO] '', ''[INFO] Dry-run mode. No changes made.'', ''[INFO] Use --apply to create:'',
            ''[INFO]     mklink /J '' @ broken_path e a @ '' '' @ actual_path e a] \<and>
         ''mklink /J '' @ broken_path e a @ '' '' @ actual_path e a =
           spaced (drop 2 (mklink_cmd (broken_path e a) (actual_path e a))) \<and>
         commands (snd (main e a (startup f))) = [where_cmd] \<and>
         fs (snd (main e a (startup f))) = at_noop e w1"
  using assms(2-4) startup_level[OF assms(1)]
  by (simp add: main_reached[OF assms(1)] main_repair_dry_run info_line logger_fields tick_fields
      at_noop_def mklink_cmd_def)

theorem dry_run_prints_command_witness:
  "diagnosed (machine windows_spawn quiet) (parse_args no_options) (startup installed) \<noteq> None \<and>
   \<not> apply_flag (parse_args no_options) \<and>
   precondition_check (machine windows_spawn quiet) (parse_args no_options)
     (the (diagnosed (machine windows_spawn quiet) (parse_args no_options) (startup installed))) = Inr True \<and>
   noop_check (machine windows_spawn quiet) (parse_args no_options)
     (the (diagnosed (machine windows_spawn quiet) (parse_args no_options) (startup installed))) = Inr False \<and>
   fst (main (machine windows_spawn quiet) (parse_args no_options) (startup installed)) = Returned \<and>
   commands (snd (main (machine windows_spawn quiet) (parse_args no_options) (startup installed))) = [where_cmd] \<and>
   fs (snd (main (machine windows_spawn quiet) (parse_args no_options) (startup installed))) default_broken_root = None"
proof -
  let ?e = "machine windows_spawn quiet" and ?a = "parse_args no_options"
  have r: "diagnosed ?e ?a (startup installed) \<noteq> None"
    by (simp add: evaluation)
  then have d: "diagnosed ?e ?a (startup installed) = Some (the (diagnosed ?e ?a (startup installed)))"
    by simp
  have f: "\<not> apply_flag ?a"
    by (simp add: evaluation)
  have p: "precondition_check ?e ?a (the (diagnosed ?e ?a (startup installed))) = Inr True"
    by (simp add: evaluation)
  have n: "noop_check ?e ?a (the (diagnosed ?e ?a (startup installed))) = Inr False"
    by (simp add: evaluation)
  have k: "at_noop ?e (the (diagnosed ?e ?a (startup installed))) default_broken_root = None"
    by (simp add: evaluation)
  from dry_run_prints_command[OF d f p n] r f p n k show ?thesis by metis
qed

text \<open>
  Claim C3 as it was stated holds of every invocation without \<^verbatim>\<open>--apply\<close> in which
  the actual path exists and the expected path does not. On a machine where the lookup
  executable cannot be started, with the actual path there and the expected path not
  there from the beginning to the end, nothing catches the exception: the status is 1
  and the command is never printed.
\<close>

theorem dry_run_counterexample:
  "\<not> apply_flag (parse_args no_options) \<and>
   fs (startup installed) (actual_path (machine no_where_spawn quiet) (parse_args no_options)) \<noteq> None \<and>
   fs (startup installed) (broken_path (machine no_where_spawn quiet) (parse_args no_options)) = None \<and>
   fs (snd (main (machine no_where_spawn quiet) (parse_args no_options) (startup installed)))
     (actual_path (machine no_where_spawn quiet) (parse_args no_options)) \<noteq> None \<and>
   fs (snd (main (machine no_where_spawn quiet) (parse_args no_options) (startup installed)))
     (broken_path (machine no_where_spawn quiet) (parse_args no_options)) = None \<and>
   exit_status (fst (main (machine no_where_spawn quiet) (parse_args no_options) (startup installed))) = 1 \<and>
   ''[INFO]     mklink /J '' @ broken_path (machine no_where_spawn quiet) (parse_args no_options) @ '' '' @
       actual_path (machine no_where_spawn quiet) (parse_args no_options)
     \<notin> set (log_lines (snd (main (machine no_where_spawn quiet) (parse_args no_options) (startup installed))))"
  by (simp add: evaluation)

section \<open>The repair\<close>

text \<open>
  Claim C4, as amended. With \<^verbatim>\<open>--apply\<close>, when lines 124--136 complete (no existence
  check raises and the lookup can be started), the precondition check answers
  \<^verbatim>\<open>True\<close> and the two checks of the expected path (lines 143 and 82) answer
  \<^verbatim>\<open>False\<close>, the commands handed to the operating system during the invocation are the
  lookup and then, exactly once, \<^verbatim>\<open>cmd /c mklink /J\<close> followed by the expected path
  (the link) and the actual path (the target). If that command completes with return
  code 0, \<^verbatim>\<open>main()\<close> returns (status 0) after writing that the junction was created and
  that the repair is complete.
\<close>

theorem apply_creates_junction:
  assumes "diagnosed e a (startup f) = Some w1"
      and "apply_flag a"
      and "precondition_check e a w1 = Inr True"
      and "noop_check e a w1 = Inr False"
      and "junction_check e a w1 = Inr False"
  shows "commands (snd (main e a (startup f))) =
           [[''where'', ''cookiecutter''],
            [''cmd'', ''/c'', ''mklink'', ''/J'', broken_path e a, actual_path e a]] \<and>
         (\<forall>cp. fst (spawn e (mklink_cmd (broken_path e a) (actual_path e a)) (at_mklink e w1)) = Inr cp \<and>
               returncode cp = 0 \<longrightarrow>
               fst (main e a (startup f)) = Returned \<and>
               exit_status (fst (main e a (startup f))) = 0 \<and>
               log_lines (snd (main e a (startup f))) =
                 log_lines w1 @ [''[INFO] Creating junction...''] @
                 (if debug a
                  then [''[DEBUG] Executing: '' @ repr e (mklink_cmd (broken_path e a) (actual_path e a))]
                  else []) @
                 [''[INFO] Created junction: '' @ broken_path e a @ '' -> '' @ actual_path e a,
                  ''[INFO] Repair complete.'', ''[INFO] Try running: cookiecutter''])"
proof -
  note m = main_reached[OF assms(1)]
  have c: "commands (snd (main e a (startup f))) =
             [where_cmd, mklink_cmd (broken_path e a) (actual_path e a)]"
    using assms(2-5) startup_level(2)[OF assms(1)] by (simp add: m main_repair_commands)
  have l: "levelno (threshold w1) \<le> 20" by (rule startup_level(1)[OF assms(1)])
  have t: "threshold w1 = (if debug a then DEBUG else INFO)" by (rule startup_threshold[OF assms(1)])
  {
    fix cp
    assume s: "fst (spawn e (mklink_cmd (broken_path e a) (actual_path e a)) (at_mklink e w1)) = Inr cp"
       and z: "returncode cp = 0"
    have "fst (main e a (startup f)) = Returned \<and>
          log_lines (snd (main e a (startup f))) =
                 log_lines w1 @ [''[INFO] Creating junction...''] @
                 (if debug a
                  then [''[DEBUG] Executing: '' @ repr e (mklink_cmd (broken_path e a) (actual_path e a))]
                  else []) @
                 [''[INFO] Created junction: '' @ broken_path e a @ '' -> '' @ actual_path e a,
                  ''[INFO] Repair complete.'', ''[INFO] Try running: cookiecutter'']"
      using z l t
      by (simp add: m main_repair_apply_run[OF assms(3,4,2,5) s] Let_def info_line logger_fields
          run_fields debug_line tick_fields)
  }
  with c show ?thesis by (simp add: where_cmd_def mklink_cmd_def)
qed

theorem apply_creates_junction_witness:
  "diagnosed (machine windows_spawn quiet) (parse_args only_apply) (startup installed) \<noteq> None \<and>
   apply_flag (parse_args only_apply) \<and>
   precondition_check (machine windows_spawn quiet) (parse_args only_apply)
     (the (diagnosed (machine windows_spawn quiet) (parse_args only_apply) (startup installed))) = Inr True \<and>
   noop_check (machine windows_spawn quiet) (parse_args only_apply)
     (the (diagnosed (machine windows_spawn quiet) (parse_args only_apply) (startup installed))) = Inr False \<and>
   junction_check (machine windows_spawn quiet) (parse_args only_apply)
     (the (diagnosed (machine windows_spawn quiet) (parse_args only_apply) (startup installed))) = Inr False \<and>
   fst (spawn (machine windows_spawn quiet)
     (mklink_cmd (broken_path (machine windows_spawn quiet) (parse_args only_apply))
        (actual_path (machine windows_spawn quiet) (parse_args only_apply)))
     (at_mklink (machine windows_spawn quiet)
        (the (diagnosed (machine windows_spawn quiet) (parse_args only_apply) (startup installed))))) =
     Inr \<lparr>returncode = 0, stdout = ''Junction created'', stderr = []\<rparr> \<and>
   commands (snd (main (machine windows_spawn quiet) (parse_args only_apply) (startup installed))) =
     [[''where'', ''cookiecutter''],
      [''cmd'', ''/c'', ''mklink'', ''/J'', default_broken_root, tools_miniconda3]] \<and>
   fst (main (machine windows_spawn quiet) (parse_args only_apply) (startup installed)) = Returned"
proof -
  let ?e = "machine windows_spawn quiet" and ?a = "parse_args only_apply"
  let ?w = "the (diagnosed ?e ?a (startup installed))"
  let ?cp = "\<lparr>returncode = 0, stdout = ''Junction created'', stderr = []\<rparr>"
  have b: "broken_path ?e ?a = default_broken_root"
    by (simp add: evaluation)
  have t: "actual_path ?e ?a = tools_miniconda3"
    by (simp add: evaluation)
  have r: "diagnosed ?e ?a (startup installed) \<noteq> None"
    by (simp add: evaluation)
  then have d: "diagnosed ?e ?a (startup installed) = Some ?w"
    by simp
  have f: "apply_flag ?a"
    by (simp add: evaluation)
  have p: "precondition_check ?e ?a ?w = Inr True"
    by (simp add: evaluation)
  have n: "noop_check ?e ?a ?w = Inr False"
    by (simp add: evaluation)
  have j: "junction_check ?e ?a ?w = Inr False"
    by (simp add: evaluation)
  have s: "fst (spawn ?e (mklink_cmd (broken_path ?e ?a) (actual_path ?e ?a)) (at_mklink ?e ?w)) = Inr ?cp"
    by (simp add: evaluation)
  from apply_creates_junction[OF d f p n j] s
  have "commands (snd (main ?e ?a (startup installed))) =
          [[''where'', ''cookiecutter''],
           [''cmd'', ''/c'', ''mklink'', ''/J'', broken_path ?e ?a, actual_path ?e ?a]] \<and>
        fst (main ?e ?a (startup installed)) = Returned"
    by simp
  then have "commands (snd (main ?e ?a (startup installed))) =
          [[''where'', ''cookiecutter''],
           [''cmd'', ''/c'', ''mklink'', ''/J'', default_broken_root, tools_miniconda3]] \<and>
        fst (main ?e ?a (startup installed)) = Returned"
    by (simp only: b t)
  with r f p n j s show ?thesis
    by blast
qed

text \<open>
  Claim C4 as it was stated holds of every invocation with \<^verbatim>\<open>--apply\<close> in which the
  actual path exists and the expected path does not. On a machine where the lookup
  executable cannot be started (and \<^verbatim>\<open>mklink\<close> would work), with the actual path there
  and the expected path not there from the beginning to the end, the link-creation
  command is never issued and the status is 1.
\<close>

theorem apply_counterexample:
  "apply_flag (parse_args only_apply) \<and>
   fs (startup installed) (actual_path (machine no_where_spawn quiet) (parse_args only_apply)) \<noteq> None \<and>
   fs (startup installed) (broken_path (machine no_where_spawn quiet) (parse_args only_apply)) = None \<and>
   fs (snd (main (machine no_where_spawn quiet) (parse_args only_apply) (startup installed)))
     (actual_path (machine no_where_spawn quiet) (parse_args only_apply)) \<noteq> None \<and>
   fs (snd (main (machine no_where_spawn quiet) (parse_args only_apply) (startup installed)))
     (broken_path (machine no_where_spawn quiet) (parse_args only_apply)) = None \<and>
   mklink_cmd (broken_path (machine no_where_spawn quiet) (parse_args only_apply))
       (actual_path (machine no_where_spawn quiet) (parse_args only_apply))
     \<notin> set (commands (snd (main (machine no_where_spawn quiet) (parse_args only_apply) (startup installed)))) \<and>
   exit_status (fst (main (machine no_where_spawn quiet) (parse_args only_apply) (startup installed))) = 1"
  by (simp add: evaluation)

section \<open>A link-creation command that fails\<close>

text \<open>
  Claim C5, as amended. With \<^verbatim>\<open>--apply\<close> and all checks passed (line 138 answers
  \<^verbatim>\<open>True\<close>, lines 143 and 82 answer \<^verbatim>\<open>False\<close>), if the link-creation command
  completes with a non-zero return code, the last line written is the error text of the
  command (its standard error), the process exits with status 1, the command was the
  only one after the lookup (no retry, no clean-up), and the filesystem at the end is
  exactly the one the failed command left. So the expected path does not exist
  afterwards whenever the failed command left none there; the script itself creates
  nothing.
\<close>

theorem failed_link_creation_is_reported:
  assumes "diagnosed e a (startup f) = Some w1"
      and "apply_flag a"
      and "precondition_check e a w1 = Inr True"
      and "noop_check e a w1 = Inr False"
      and "junction_check e a w1 = Inr False"
      and "spawn e (mklink_cmd (broken_path e a) (actual_path e a)) (at_mklink e w1) = (Inr cp, f')"
      and "returncode cp \<noteq> 0"
  shows "fst (main e a (startup f)) = SysExit 1 \<and>
         exit_status (fst (main e a (startup f))) = 1 \<and>
         last (log_lines (snd (main e a (startup f)))) = ''[ERROR] mklink failed: '' @ stderr cp \<and>
         commands (snd (main e a (startup f))) =
           [where_cmd, mklink_cmd (broken_path e a) (actual_path e a)] \<and>
         fs (snd (main e a (startup f))) = f'"
proof -
  note m = main_reached[OF assms(1)]
  have s: "fst (spawn e (mklink_cmd (broken_path e a) (actual_path e a)) (at_mklink e w1)) = Inr cp"
    using assms(6) by simp
  have l: "levelno (threshold (snd (run e (mklink_cmd (broken_path e a) (actual_path e a))
             (logger_info ''Creating junction...'' (tick e (tick e (tick e w1))))))) \<le> 20"
    using startup_level(1)[OF assms(1)] by (simp add: run_fields logger_fields tick_fields)
  have "fst (main e a (startup f)) = SysExit 1"
    using assms(7) by (simp add: m main_repair_apply_run[OF assms(3,4,2,5) s] Let_def)
  moreover have "last (log_lines (snd (main e a (startup f)))) = ''[ERROR] mklink failed: '' @ stderr cp"
    using assms(7) l by (simp add: m main_repair_apply_run[OF assms(3,4,2,5) s] Let_def error_line)
  moreover have "commands (snd (main e a (startup f))) =
           [where_cmd, mklink_cmd (broken_path e a) (actual_path e a)]"
    using assms(2-5) startup_level(2)[OF assms(1)] by (simp add: m main_repair_commands)
  moreover have "fs (snd (main e a (startup f))) = f'"
    using assms(2-6) by (simp add: m main_repair_fs)
  ultimately show ?thesis by simp
qed

theorem failed_link_creation_is_reported_witness:
  "diagnosed (machine refusing_spawn quiet) (parse_args only_apply) (startup installed) \<noteq> None \<and>
   apply_flag (parse_args only_apply) \<and>
   precondition_check (machine refusing_spawn quiet) (parse_args only_apply)
     (the (diagnosed (machine refusing_spawn quiet) (parse_args only_apply) (startup installed))) = Inr True \<and>
   noop_check (machine refusing_spawn quiet) (parse_args only_apply)
     (the (diagnosed (machine refusing_spawn quiet) (parse_args only_apply) (startup installed))) = Inr False \<and>
   junction_check (machine refusing_spawn quiet) (parse_args only_apply)
     (the (diagnosed (machine refusing_spawn quiet) (parse_args only_apply) (startup installed))) = Inr False \<and>
   fst (spawn (machine refusing_spawn quiet)
     (mklink_cmd (broken_path (machine refusing_spawn quiet) (parse_args only_apply))
        (actual_path (machine refusing_spawn quiet) (parse_args only_apply)))
     (at_mklink (machine refusing_spawn quiet)
        (the (diagnosed (machine refusing_spawn quiet) (parse_args only_apply) (startup installed))))) =
     Inr \<lparr>returncode = 1, stdout = [], stderr = ''Access is denied.''\<rparr> \<and>
   fst (main (machine refusing_spawn quiet) (parse_args only_apply) (startup installed)) = SysExit 1 \<and>
   last (log_lines (snd (main (machine refusing_spawn quiet) (parse_args only_apply) (startup installed)))) =
     ''[ERROR] mklink failed: Access is denied.'' \<and>
   fs (snd (main (machine refusing_spawn quiet) (parse_args only_apply) (startup installed)))
     (broken_path (machine refusing_spawn quiet) (parse_args only_apply)) = None"
proof -
  let ?e = "machine refusing_spawn quiet" and ?a = "parse_args only_apply"
  let ?w = "the (diagnosed ?e ?a (startup installed))"
  let ?cp = "\<lparr>returncode = 1, stdout = [], stderr = ''Access is denied.''\<rparr>"
  let ?mk = "mklink_cmd (broken_path ?e ?a) (actual_path ?e ?a)"
  have r: "diagnosed ?e ?a (startup installed) \<noteq> None"
    by (simp add: evaluation)
  then have d: "diagnosed ?e ?a (startup installed) = Some ?w"
    by simp
  have f: "apply_flag ?a"
    by (simp add: evaluation)
  have p: "precondition_check ?e ?a ?w = Inr True"
    by (simp add: evaluation)
  have n: "noop_check ?e ?a ?w = Inr False"
    by (simp add: evaluation)
  have j: "junction_check ?e ?a ?w = Inr False"
    by (simp add: evaluation)
  have s: "spawn ?e ?mk (at_mklink ?e ?w) = (Inr ?cp, at_mklink ?e ?w)"
    by (simp add: machine_def refusing_spawn_def)
  have z: "returncode ?cp \<noteq> 0"
    by simp
  have k: "at_mklink ?e ?w (broken_path ?e ?a) = None"
    by (simp add: evaluation)
  from failed_link_creation_is_reported[OF d f p n j s z] k
  have "fst (main ?e ?a (startup installed)) = SysExit 1 \<and>
        last (log_lines (snd (main ?e ?a (startup installed)))) = ''[ERROR] mklink failed: Access is denied.'' \<and>
        fs (snd (main ?e ?a (startup installed))) (broken_path ?e ?a) = None"
    by simp
  moreover have "fst (spawn ?e ?mk (at_mklink ?e ?w)) = Inr ?cp"
    using s by simp
  ultimately show ?thesis using r f p n j
    by blast
qed

text \<open>
  Claim C5 as it was stated promises that the expected path does not exist afterwards.
  When another process creates it between the check of line 82 and the command, the
  command fails for that very reason, the status is 1, and the expected path exists.
\<close>

theorem failed_link_creation_counterexample:
  "diagnosed (machine windows_spawn (racing 7 default_broken_root)) (parse_args only_apply) (startup installed) \<noteq> None \<and>
   apply_flag (parse_args only_apply) \<and>
   precondition_check (machine windows_spawn (racing 7 default_broken_root)) (parse_args only_apply)
     (the (diagnosed (machine windows_spawn (racing 7 default_broken_root)) (parse_args only_apply) (startup installed))) = Inr True \<and>
   noop_check (machine windows_spawn (racing 7 default_broken_root)) (parse_args only_apply)
     (the (diagnosed (machine windows_spawn (racing 7 default_broken_root)) (parse_args only_apply) (startup installed))) = Inr False \<and>
   junction_check (machine windows_spawn (racing 7 default_broken_root)) (parse_args only_apply)
     (the (diagnosed (machine windows_spawn (racing 7 default_broken_root)) (parse_args only_apply) (startup installed))) = Inr False \<and>
   fst (spawn (machine windows_spawn (racing 7 default_broken_root))
     (mklink_cmd (broken_path (machine windows_spawn (racing 7 default_broken_root)) (parse_args only_apply))
        (actual_path (machine windows_spawn (racing 7 default_broken_root)) (parse_args only_apply)))
     (at_mklink (machine windows_spawn (racing 7 default_broken_root))
        (the (diagnosed (machine windows_spawn (racing 7 default_broken_root)) (parse_args only_apply) (startup installed))))) =
     Inr \<lparr>returncode = 1, stdout = [],
          stderr = ''Cannot create a file when that file already exists.''\<rparr> \<and>
   fst (main (machine windows_spawn (racing 7 default_broken_root)) (parse_args only_apply) (startup installed)) = SysExit 1 \<and>
   fs (snd (main (machine windows_spawn (racing 7 default_broken_root)) (parse_args only_apply) (startup installed)))
     (broken_path (machine windows_spawn (racing 7 default_broken_root)) (parse_args only_apply)) \<noteq> None"
  by (simp add: evaluation)

section \<open>The second existence check\<close>

text \<open>
  Claim C6, as amended. After the no-op check of line 143, \<^verbatim>\<open>create_junction\<close> checks
  the expected path once more (line 82) before the command. With \<^verbatim>\<open>--apply\<close>, the actual
  path found and the no-op check passed: if that second check finds the expected path, no
  link-creation command is issued, the last line written is ``Cannot create junction:
  ... already exists.'' and the exit is \<^verbatim>\<open>sys.exit(1)\<close>; if it finds nothing, the
  command is issued on whatever filesystem it then meets, with no further check, and a
  non-zero return code is reported as ``mklink failed:'' with the command's error text,
  again with \<^verbatim>\<open>sys.exit(1)\<close>.
\<close>

theorem second_existence_check:
  assumes "diagnosed e a (startup f) = Some w1"
      and "apply_flag a"
      and "precondition_check e a w1 = Inr True"
      and "noop_check e a w1 = Inr False"
  shows "(junction_check e a w1 = Inr True \<longrightarrow>
            commands (snd (main e a (startup f))) = [where_cmd] \<and>
            fst (main e a (startup f)) = SysExit 1 \<and>
            last (log_lines (snd (main e a (startup f)))) =
              ''[ERROR] Cannot create junction: '' @ broken_path e a @ '' already exists.'') \<and>
         (junction_check e a w1 = Inr False \<longrightarrow>
            commands (snd (main e a (startup f))) =
              [where_cmd, mklink_cmd (broken_path e a) (actual_path e a)] \<and>
            (\<forall>cp. fst (spawn e (mklink_cmd (broken_path e a) (actual_path e a)) (at_mklink e w1)) = Inr cp \<and>
                  returncode cp \<noteq> 0 \<longrightarrow>
                  fst (main e a (startup f)) = SysExit 1 \<and>
                  last (log_lines (snd (main e a (startup f)))) =
                    ''[ERROR] mklink failed: '' @ stderr cp))"
proof (intro conjI impI allI)
  note m = main_reached[OF assms(1)]
  note l = startup_level[OF assms(1)]
  {
    assume j: "junction_check e a w1 = Inr True"
    note b = main_repair_blocked[OF assms(3,4,2) j]
    show "commands (snd (main e a (startup f))) = [where_cmd]"
      using l(2) by (simp add: m b logger_fields tick_fields)
    show "fst (main e a (startup f)) = SysExit 1"
      by (simp add: m b)
    show "last (log_lines (snd (main e a (startup f)))) =
            ''[ERROR] Cannot create junction: '' @ broken_path e a @ '' already exists.''"
      using l(1) by (simp add: m b error_line logger_fields tick_fields)
  }
  {
    assume j: "junction_check e a w1 = Inr False"
    show "commands (snd (main e a (startup f))) =
            [where_cmd, mklink_cmd (broken_path e a) (actual_path e a)]"
      using assms(2-4) j l(2) by (simp add: m main_repair_commands)
    fix cp
    assume "fst (spawn e (mklink_cmd (broken_path e a) (actual_path e a)) (at_mklink e w1)) = Inr cp \<and>
            returncode cp \<noteq> 0"
    then have s: "fst (spawn e (mklink_cmd (broken_path e a) (actual_path e a)) (at_mklink e w1)) = Inr cp"
      and z: "returncode cp \<noteq> 0"
      by simp_all
    note r = main_repair_apply_run[OF assms(3,4,2) j s]
    have t: "levelno (threshold (snd (run e (mklink_cmd (broken_path e a) (actual_path e a))
               (logger_info ''Creating junction...'' (tick e (tick e (tick e w1))))))) \<le> 20"
      using l(1) by (simp add: run_fields logger_fields tick_fields)
    show "fst (main e a (startup f)) = SysExit 1"
      using z by (simp add: m r Let_def)
    show "last (log_lines (snd (main e a (startup f)))) = ''[ERROR] mklink failed: '' @ stderr cp"
      using z t by (simp add: m r Let_def error_line)
  }
qed

theorem second_existence_check_witness:
  "diagnosed (machine windows_spawn (racing 7 default_broken_root)) (parse_args only_apply) (startup installed) \<noteq> None \<and>
   apply_flag (parse_args only_apply) \<and>
   precondition_check (machine windows_spawn (racing 7 default_broken_root)) (parse_args only_apply)
     (the (diagnosed (machine windows_spawn (racing 7 default_broken_root)) (parse_args only_apply) (startup installed))) = Inr True \<and>
   noop_check (machine windows_spawn (racing 7 default_broken_root)) (parse_args only_apply)
     (the (diagnosed (machine windows_spawn (racing 7 default_broken_root)) (parse_args only_apply) (startup installed))) = Inr False \<and>
   junction_check (machine windows_spawn (racing 7 default_broken_root)) (parse_args only_apply)
     (the (diagnosed (machine windows_spawn (racing 7 default_broken_root)) (parse_args only_apply) (startup installed))) = Inr False \<and>
   at_mklink (machine windows_spawn (racing 7 default_broken_root))
     (the (diagnosed (machine windows_spawn (racing 7 default_broken_root)) (parse_args only_apply) (startup installed)))
     (broken_path (machine windows_spawn (racing 7 default_broken_root)) (parse_args only_apply)) \<noteq> None \<and>
   commands (snd (main (machine windows_spawn (racing 7 default_broken_root)) (parse_args only_apply) (startup installed))) =
     [where_cmd,
      mklink_cmd (broken_path (machine windows_spawn (racing 7 default_broken_root)) (parse_args only_apply))
        (actual_path (machine windows_spawn (racing 7 default_broken_root)) (parse_args only_apply))] \<and>
   fst (main (machine windows_spawn (racing 7 default_broken_root)) (parse_args only_apply) (startup installed)) = SysExit 1 \<and>
   last (log_lines (snd (main (machine windows_spawn (racing 7 default_broken_root)) (parse_args only_apply) (startup installed)))) =
     ''[ERROR] mklink failed: Cannot create a file when that file already exists.'' \<and>
   diagnosed (machine windows_spawn (racing 6 default_broken_root)) (parse_args only_apply) (startup installed) \<noteq> None \<and>
   precondition_check (machine windows_spawn (racing 6 default_broken_root)) (parse_args only_apply)
     (the (diagnosed (machine windows_spawn (racing 6 default_broken_root)) (parse_args only_apply) (startup installed))) = Inr True \<and>
   noop_check (machine windows_spawn (racing 6 default_broken_root)) (parse_args only_apply)
     (the (diagnosed (machine windows_spawn (racing 6 default_broken_root)) (parse_args only_apply) (startup installed))) = Inr False \<and>
   junction_check (machine windows_spawn (racing 6 default_broken_root)) (parse_args only_apply)
     (the (diagnosed (machine windows_spawn (racing 6 default_broken_root)) (parse_args only_apply) (startup installed))) = Inr True \<and>
   commands (snd (main (machine windows_spawn (racing 6 default_broken_root)) (parse_args only_apply) (startup installed))) =
     [where_cmd] \<and>
   fst (main (machine windows_spawn (racing 6 default_broken_root)) (parse_args only_apply) (startup installed)) = SysExit 1"
proof -
  let ?e = "machine windows_spawn (racing 7 default_broken_root)" and ?a = "parse_args only_apply"
  let ?w = "the (diagnosed ?e ?a (startup installed))"
  let ?cp = "\<lparr>returncode = 1, stdout = [],
              stderr = ''Cannot create a file when that file already exists.''\<rparr>"
  let ?mk = "mklink_cmd (broken_path ?e ?a) (actual_path ?e ?a)"
  have r: "diagnosed ?e ?a (startup installed) \<noteq> None"
    by (simp add: evaluation)
  then have d: "diagnosed ?e ?a (startup installed) = Some ?w"
    by simp
  have f: "apply_flag ?a"
    by (simp add: evaluation)
  have p: "precondition_check ?e ?a ?w = Inr True"
    by (simp add: evaluation)
  have n: "noop_check ?e ?a ?w = Inr False"
    by (simp add: evaluation)
  have j: "junction_check ?e ?a ?w = Inr False"
    by (simp add: evaluation)
  have k: "at_mklink ?e ?w (broken_path ?e ?a) \<noteq> None"
    by (simp add: evaluation)
  have s: "fst (spawn ?e ?mk (at_mklink ?e ?w)) = Inr ?cp"
    by (simp add: evaluation)
  have z: "returncode ?cp \<noteq> 0"
    by simp
  from second_existence_check[OF d f p n] j s z
  have "commands (snd (main ?e ?a (startup installed))) = [where_cmd, ?mk] \<and>
        fst (main ?e ?a (startup installed)) = SysExit 1 \<and>
        last (log_lines (snd (main ?e ?a (startup installed)))) =
          ''[ERROR] mklink failed: Cannot create a file when that file already exists.''"
    by simp
  note late = this
  let ?e' = "machine windows_spawn (racing 6 default_broken_root)"
  let ?w' = "the (diagnosed ?e' ?a (startup installed))"
  have r': "diagnosed ?e' ?a (startup installed) \<noteq> None"
    by (simp add: evaluation)
  then have d': "diagnosed ?e' ?a (startup installed) = Some ?w'"
    by simp
  have p': "precondition_check ?e' ?a ?w' = Inr True"
    by (simp add: evaluation)
  have n': "noop_check ?e' ?a ?w' = Inr False"
    by (simp add: evaluation)
  have j': "junction_check ?e' ?a ?w' = Inr True"
    by (simp add: evaluation)
  from second_existence_check[OF d' f p' n'] j'
  have "commands (snd (main ?e' ?a (startup installed))) = [where_cmd] \<and>
        fst (main ?e' ?a (startup installed)) = SysExit 1"
    by blast
  with late r f p n j k r' p' n' j' show ?thesis
    by blast
qed

text \<open>
  Claim C6 as it was stated says there is no check after the no-op check, so that an
  expected path appearing in between is seen as an error of the command. When it appears
  between lines 143 and 82, the command is never issued: the script itself reports it.
\<close>

theorem second_existence_check_counterexample:
  "diagnosed (machine windows_spawn (racing 6 default_broken_root)) (parse_args only_apply) (startup installed) \<noteq> None \<and>
   apply_flag (parse_args only_apply) \<and>
   precondition_check (machine windows_spawn (racing 6 default_broken_root)) (parse_args only_apply)
     (the (diagnosed (machine windows_spawn (racing 6 default_broken_root)) (parse_args only_apply) (startup installed))) = Inr True \<and>
   noop_check (machine windows_spawn (racing 6 default_broken_root)) (parse_args only_apply)
     (the (diagnosed (machine windows_spawn (racing 6 default_broken_root)) (parse_args only_apply) (startup installed))) = Inr False \<and>
   mklink_cmd (broken_path (machine windows_spawn (racing 6 default_broken_root)) (parse_args only_apply))
        (actual_path (machine windows_spawn (racing 6 default_broken_root)) (parse_args only_apply))
     \<notin> set (commands (snd (main (machine windows_spawn (racing 6 default_broken_root)) (parse_args only_apply) (startup installed)))) \<and>
   last (log_lines (snd (main (machine windows_spawn (racing 6 default_broken_root)) (parse_args only_apply) (startup installed)))) =
     ''[ERROR] Cannot create junction: '' @ default_broken_root @ '' already exists.''"
  by (simp add: evaluation)

section \<open>When the link-creation command is issued\<close>

text \<open>
  Claim C7. In every invocation the link-creation command is handed to the operating
  system exactly when line 138 was reached, \<^verbatim>\<open>--apply\<close> was given, the precondition
  check answered \<^verbatim>\<open>True\<close> and both checks of the expected path answered \<^verbatim>\<open>False\<close>;
  it then follows the lookup. Under every other combination of what the checks see
  (a check that finds otherwise, or raises) the lookup is the only command, and there is
  none at all when an existence check of the header raised before the lookup.
\<close>

theorem link_creation_only_when_checks_pass:
  "commands (snd (main e a (startup f))) =
     (if (case diagnosed e a (startup f) of
            None \<Rightarrow> False
          | Some w1 \<Rightarrow>
              apply_flag a \<and>
              precondition_check e a w1 = Inr True \<and>
              noop_check e a w1 = Inr False \<and>
              junction_check e a w1 = Inr False)
      then [where_cmd, mklink_cmd (broken_path e a) (actual_path e a)]
      else if fst (main_header e a (startup f)) = None then [where_cmd]
      else [])"
proof (cases "diagnosed e a (startup f)")
  case None
  from unreached_commands(2)[OF None] None show ?thesis
    by simp
next
  case (Some w1)
  with startup_level(2)[OF Some] diagnosed_Some(1)[OF Some] show ?thesis
    by (simp add: main_reached[OF Some] main_repair_commands)
qed

theorem link_creation_only_when_checks_pass_witness:
  "commands (snd (main (machine windows_spawn quiet) (parse_args only_apply) (startup installed))) =
     [where_cmd, mklink_cmd default_broken_root tools_miniconda3] \<and>
   commands (snd (main (machine windows_spawn quiet) (parse_args only_apply) (startup repaired))) = [where_cmd] \<and>
   commands (snd (main (machine windows_spawn quiet) (parse_args only_apply) (startup stale_alias))) = [where_cmd] \<and>
   commands (snd (main (machine windows_spawn quiet) (parse_args only_apply) (startup Map.empty))) = [where_cmd] \<and>
   commands (snd (main (refusing_stat 0 (machine windows_spawn quiet)) (parse_args only_apply) (startup installed))) = []"
proof -
  let ?e = "machine windows_spawn quiet" and ?a = "parse_args only_apply"
  let ?e' = "refusing_stat 0 (machine windows_spawn quiet)"
  have b: "broken_path ?e ?a = default_broken_root"
    by (simp add: evaluation)
  have t: "actual_path ?e ?a = tools_miniconda3"
    by (simp add: evaluation)
  have "(case diagnosed ?e ?a (startup installed) of
            None \<Rightarrow> False
          | Some w1 \<Rightarrow>
              apply_flag ?a \<and>
              precondition_check ?e ?a w1 = Inr True \<and>
              noop_check ?e ?a w1 = Inr False \<and>
              junction_check ?e ?a w1 = Inr False)"
    by (simp add: evaluation)
  with link_creation_only_when_checks_pass[of ?e ?a installed]
  have 1: "commands (snd (main ?e ?a (startup installed))) =
             [where_cmd, mklink_cmd default_broken_root tools_miniconda3]"
    by (simp only: b t if_True)
  have h: "fst (main_header ?e ?a (startup g)) = None" for g
    by (simp add: evaluation split: prod.split sum.split option.split)
  have "\<not> (case diagnosed ?e ?a (startup repaired) of
            None \<Rightarrow> False
          | Some w1 \<Rightarrow>
              apply_flag ?a \<and>
              precondition_check ?e ?a w1 = Inr True \<and>
              noop_check ?e ?a w1 = Inr False \<and>
              junction_check ?e ?a w1 = Inr False)"
    by (simp add: evaluation)
  with link_creation_only_when_checks_pass[of ?e ?a repaired] h
  have 2: "commands (snd (main ?e ?a (startup repaired))) = [where_cmd]"
    by simp
  have "\<not> (case diagnosed ?e ?a (startup stale_alias) of
            None \<Rightarrow> False
          | Some w1 \<Rightarrow>
              apply_flag ?a \<and>
              precondition_check ?e ?a w1 = Inr True \<and>
              noop_check ?e ?a w1 = Inr False \<and>
              junction_check ?e ?a w1 = Inr False)"
    by (simp add: evaluation)
  with link_creation_only_when_checks_pass[of ?e ?a stale_alias] h
  have 3: "commands (snd (main ?e ?a (startup stale_alias))) = [where_cmd]"
    by simp
  have "\<not> (case diagnosed ?e ?a (startup Map.empty) of
            None \<Rightarrow> False
          | Some w1 \<Rightarrow>
              apply_flag ?a \<and>
              precondition_check ?e ?a w1 = Inr True \<and>
              noop_check ?e ?a w1 = Inr False \<and>
              junction_check ?e ?a w1 = Inr False)"
    by (simp add: evaluation)
  with link_creation_only_when_checks_pass[of ?e ?a Map.empty] h
  have 4: "commands (snd (main ?e ?a (startup Map.empty))) = [where_cmd]"
    by simp
  have u: "diagnosed ?e' ?a (startup installed) = None"
    by (simp add: evaluation)
  have h': "fst (main_header ?e' ?a (startup installed)) \<noteq> None"
    by (simp add: evaluation)
  from link_creation_only_when_checks_pass[of ?e' ?a installed] u h'
  have 5: "commands (snd (main ?e' ?a (startup installed))) = []"
    by simp
  from 1 2 3 4 5 show ?thesis by blast
qed

section \<open>The diagnostic lookup\<close>



section \<open>Default paths\<close>

text \<open>
  Claim C9. When \<^verbatim>\<open>--actual-root\<close> is not given, the namespace holds \<^verbatim>\<open>None\<close> for it
  and the actual path is the parent of the path of \<^verbatim>\<open>sys.executable\<close>; when
  \<^verbatim>\<open>--broken-root\<close> is not given, the namespace holds the fixed default
  \<^verbatim>\<open>C:\miniconda3\<close> and the expected path is the path of that string.
\<close>

theorem default_paths:
  "(given_actual_root c = None \<longrightarrow>
      actual_root (parse_args c) = None \<and>
      actual_path e (parse_args c) = parent e (Path e (sys_executable e))) \<and>
   (given_broken_root c = None \<longrightarrow>
      broken_root (parse_args c) = ''C:'' @ [CHR 0x5C] @ ''miniconda3'' \<and>
      broken_path e (parse_args c) = Path e (''C:'' @ [CHR 0x5C] @ ''miniconda3''))"
  by (simp add: parse_args_def actual_path_def broken_path_def default_broken_root_def)

theorem default_paths_witness:
  "given_actual_root no_options = None \<and>
   given_broken_root no_options = None \<and>
   actual_path (machine windows_spawn quiet) (parse_args no_options) =
     sample_parent (tools_miniconda3 @ [CHR 0x5C] @ ''python.exe'') \<and>
   actual_path (machine windows_spawn quiet) (parse_args no_options) = tools_miniconda3 \<and>
   broken_path (machine windows_spawn quiet) (parse_args no_options) = ''C:'' @ [CHR 0x5C] @ ''miniconda3''"
proof -
  have a: "given_actual_root no_options = None" and b: "given_broken_root no_options = None"
    by (simp_all add: no_options_def)
  have p: "sample_parent (tools_miniconda3 @ [CHR 0x5C] @ ''python.exe'') = tools_miniconda3"
    by (simp add: sample_parent_def tools_miniconda3_def)
  from default_paths[of no_options "machine windows_spawn quiet"] a b p show ?thesis
    by (simp add: machine_def)
qed

section \<open>A lookup that cannot be started\<close>

text \<open>
  Claim C10. When the lookup command is reached and \<^verbatim>\<open>subprocess.run\<close> raises on it,
  \<^verbatim>\<open>get_cookiecutter_path\<close> does not yield ``not found'' but raises the same exception;
  nothing catches it, so \<^verbatim>\<open>main()\<close> ends with it in the world the failed call left:
  line 138 is not reached, and the exit status of the process is not 0.
\<close>

theorem lookup_launch_failure_is_uncaught:
  assumes "fst (main_header e a (startup f)) = None"
      and "fst (spawn e where_cmd (fs (tick e (snd (main_header e a (startup f)))))) = Inl x"
  shows "fst (get_cookiecutter_path e (snd (main_header e a (startup f)))) = Inl x \<and>
         fst (get_cookiecutter_path e (snd (main_header e a (startup f)))) \<noteq> Inr ''not found'' \<and>
         main e a (startup f) =
           (Uncaught x, snd (run e where_cmd (snd (main_header e a (startup f))))) \<and>
         exit_status (fst (main e a (startup f))) \<noteq> 0 \<and>
         diagnosed e a (startup f) = None"
  using assms main_unreached[OF assms] by (simp add: lookup_result)

theorem lookup_launch_failure_is_uncaught_witness:
  "fst (main_header (machine failing_spawn quiet) (parse_args only_apply) (startup installed)) = None \<and>
   fst (spawn (machine failing_spawn quiet) where_cmd
      (fs (tick (machine failing_spawn quiet)
         (snd (main_header (machine failing_spawn quiet) (parse_args only_apply) (startup installed)))))) =
     Inl (OSError ''The system cannot find the file specified'') \<and>
   fst (main (machine failing_spawn quiet) (parse_args only_apply) (startup installed)) =
     Uncaught (OSError ''The system cannot find the file specified'') \<and>
   exit_status (fst (main (machine failing_spawn quiet) (parse_args only_apply) (startup installed))) = 1 \<and>
   commands (snd (main (machine failing_spawn quiet) (parse_args only_apply) (startup installed))) = [where_cmd] \<and>
   diagnosed (machine failing_spawn quiet) (parse_args only_apply) (startup installed) = None"
proof -
  let ?e = "machine failing_spawn quiet" and ?a = "parse_args only_apply"
  let ?x = "OSError ''The system cannot find the file specified''"
  have h: "fst (main_header ?e ?a (startup installed)) = None"
    by (simp add: evaluation)
  have s: "fst (spawn ?e where_cmd (fs (tick ?e (snd (main_header ?e ?a (startup installed)))))) = Inl ?x"
    by (simp add: machine_def failing_spawn_def)
  from lookup_launch_failure_is_uncaught[OF h s] h s show ?thesis
    by (simp add: run_fields header_fields startup_def)
qed

end
